theory Spec2Isabelle
  imports Main "HOL-Library.Word"
begin

section \<open>The SIL data model\<close>

text \<open>
  The two source files, \<^verbatim>\<open>lib/SILPasses/SILCombinerVisitors.cpp\<close> and
  \<^verbatim>\<open>lib/SILPasses/Utils/SILInliner.cpp\<close>, work on SIL values. A \<^verbatim>\<open>SILValue\<close> is a
  pointer to the \<^verbatim>\<open>ValueBase\<close> that defines it, and the code reads through that pointer:
  the kind of the defining instruction (\<^verbatim>\<open>dyn_cast\<close>), its type, its operands, and the
  members of its class. The model therefore represents a value by its definition: a node
  with an identity (\<open>ident\<close>, standing for the address of the object, so that pointer
  equality is equality of \<open>ident\<close>), the \<^verbatim>\<open>ValueKind\<close>, the type, the operand values
  and the members that the instruction classes add (\<open>InstAttrs\<close>; a member is only read
  after the kind has been tested, as in the C++). Values with several results are not
  distinguished by result number.

  Whatever aborts the program (a failed \<^verbatim>\<open>assert\<close>, \<^verbatim>\<open>llvm_unreachable\<close>, an operand
  index out of range, a null pointer that is dereferenced) is the \<open>Inl\<close> branch of a
  result of type \<open>Failure + 'a\<close>.
\<close>

datatype Failure =
    AssertionFailure
  | UnreachableExecuted
  | OperandOutOfRange
  | NullDereference
  | OutOfFuel

definition bindF :: "Failure + 'a \<Rightarrow> ('a \<Rightarrow> Failure + 'b) \<Rightarrow> Failure + 'b" where
  "bindF m f = (case m of Inl e \<Rightarrow> Inl e | Inr x \<Rightarrow> f x)"

text \<open>The enumerators of \<^verbatim>\<open>ValueKind\<close> and \<^verbatim>\<open>BuiltinValueKind\<close> are modelled by their names.\<close>

type_synonym ValueKind = string
type_synonym BuiltinValueKind = string

datatype MetatypeRepresentation = Thin | Thick | ObjC

datatype AbstractCC = CC_Freestanding | CC_Method | CC_WitnessMethod | CC_C | CC_ObjCMethod

datatype EffectsKind = ReadNone | ReadOnly | ReadWrite | Unspecified

datatype Encoding = UTF8 | UTF16

datatype InlineKind = MandatoryInline | PerformanceInline

datatype IsZeroKind = Zero | NotZero | Unknown

text \<open>\<^verbatim>\<open>EffectsKind\<close> is an ordered enumeration; the code compares it with \<^verbatim>\<open><\<close> and \<^verbatim>\<open>>=\<close>.\<close>

fun effectsRank :: "EffectsKind \<Rightarrow> nat" where
  "effectsRank ReadNone = 0"
| "effectsRank ReadOnly = 1"
| "effectsRank ReadWrite = 2"
| "effectsRank Unspecified = 3"

text \<open>An \<^verbatim>\<open>APInt\<close>: a bit width and an unsigned value below \<open>2 ^ BitWidth\<close>.\<close>

record APInt =
  BitWidth :: nat
  VAL :: nat

definition mkAPInt :: "nat \<Rightarrow> nat \<Rightarrow> APInt" where
  "mkAPInt w v = \<lparr> BitWidth = w, VAL = v mod 2 ^ w \<rparr>"

record EnumElementDecl =
  elementName :: string
  hasArgumentType :: bool

text \<open>
  The facts about a \<^verbatim>\<open>SILType\<close> that the code asks the type system for. They are inputs
  of the model: the type system itself is not part of the two files.
\<close>

record SILType =
  typeName :: string
  hasArchetype :: bool
  isTrivial :: bool
  hasReferenceSemantics :: bool
  isAddress :: bool
  integerWidth :: "nat option"
  metatypeRepresentation :: "MetatypeRepresentation option"
  getEnumOrBoundGenericEnum :: "EnumElementDecl list option"

text \<open>The attributes of a \<^verbatim>\<open>SILFunction\<close> that the code reads; a function is identified by its name.\<close>

record SILFunctionDecl =
  fnName :: string
  fnIsTransparent :: bool
  fnEffectsInfo :: EffectsKind
  fnSemanticsAttr :: string
  fnAbstractCC :: AbstractCC
  fnResultType :: SILType

definition hasDefinedSemantics :: "SILFunctionDecl \<Rightarrow> bool" where
  "hasDefinedSemantics Fn = (fnSemanticsAttr Fn \<noteq> [])"

definition hasSemanticsString :: "SILFunctionDecl \<Rightarrow> string \<Rightarrow> bool" where
  "hasSemanticsString Fn s = (fnSemanticsAttr Fn = s)"

datatype LocationKind = RegularKind | InlinedKind | MandatoryInlinedKind

record SILLocation =
  locKind :: LocationKind
  locPos :: nat

datatype SILDebugScope =
  DebugScope (scopeLoc: SILLocation) (scopeFn: string)
             (scopeParent: "SILDebugScope option") (InlinedCallSite: "SILDebugScope option")

record InstAttrs =
  parentFunction :: string
  instLoc :: SILLocation
  instDebugScope :: "SILDebugScope option"
  integerValue :: APInt
  stringValue :: string
  stringEncoding :: Encoding
  referencedFunction :: SILFunctionDecl
  builtinID :: BuiltinValueKind
  applyIsTransparent :: bool
  enumElement :: EnumElementDecl
  successors :: "nat list"
  trueBB :: nat
  falseBB :: nat
  numTrueArgs :: nat

datatype SILValue =
  ValueBase (ident: nat) (getKind: ValueKind) (getType: SILType)
            (getOperands: "SILValue list") (attrs: InstAttrs)

record SILBasicBlock =
  bbIdent :: nat
  BBArgs :: "SILValue list"
  Insts :: "SILValue list"

record SILFunction =
  fnDecl :: SILFunctionDecl
  Blocks :: "SILBasicBlock list"
  fnDebugScope :: SILDebugScope

text \<open>
  The type of an instruction that has no result, the type \<^verbatim>\<open>Builtin.RawPointer\<close> of a
  string literal, and the members of a freshly constructed instruction: its function and
  its location are given, every other member has the value it has in an object that
  does not use it.
\<close>

definition plainType :: "string \<Rightarrow> SILType" where
  "plainType n = \<lparr> typeName = n, hasArchetype = False, isTrivial = True,
                   hasReferenceSemantics = False, isAddress = False, integerWidth = None,
                   metatypeRepresentation = None, getEnumOrBoundGenericEnum = None \<rparr>"

definition noResultType :: SILType where
  "noResultType = plainType []"

definition RawPointerType :: SILType where
  "RawPointerType = plainType ''$Builtin.RawPointer''"

definition noFunction :: SILFunctionDecl where
  "noFunction = \<lparr> fnName = [], fnIsTransparent = False, fnEffectsInfo = Unspecified,
                  fnSemanticsAttr = [], fnAbstractCC = CC_Freestanding,
                  fnResultType = noResultType \<rparr>"

definition mkAttrs :: "string \<Rightarrow> SILLocation \<Rightarrow> InstAttrs" where
  "mkAttrs Fn Loc =
     \<lparr> parentFunction = Fn, instLoc = Loc, instDebugScope = None,
       integerValue = \<lparr> BitWidth = 0, VAL = 0 \<rparr>, stringValue = [], stringEncoding = UTF8,
       referencedFunction = noFunction, builtinID = [], applyIsTransparent = False,
       enumElement = \<lparr> elementName = [], hasArgumentType = False \<rparr>,
       successors = [], trueBB = 0, falseBB = 0, numTrueArgs = 0 \<rparr>"

definition getFunction :: "SILValue \<Rightarrow> string" where
  "getFunction I = parentFunction (attrs I)"

definition getLoc :: "SILValue \<Rightarrow> SILLocation" where
  "getLoc I = instLoc (attrs I)"

definition getNumOperands :: "SILValue \<Rightarrow> nat" where
  "getNumOperands I = length (getOperands I)"

definition getOperand :: "SILValue \<Rightarrow> nat \<Rightarrow> Failure + SILValue" where
  "getOperand I n =
     (if n < length (getOperands I) then Inr (getOperands I ! n) else Inl OperandOutOfRange)"

definition dyn_cast :: "ValueKind \<Rightarrow> SILValue \<Rightarrow> SILValue option" where
  "dyn_cast K V = (if getKind V = K then Some V else None)"

section \<open>The inline cost model (\<^verbatim>\<open>SILInliner.cpp\<close>)\<close>

text \<open>\<^verbatim>\<open>enum class InlineCost : unsigned { Free = 0, Expensive = 1, CannotBeInlined = UINT_MAX }\<close>\<close>

datatype InlineCost = Free | Expensive | CannotBeInlined

definition UINT_MAX :: "32 word" where
  "UINT_MAX = - 1"

fun unsignedOf :: "InlineCost \<Rightarrow> 32 word" where
  "unsignedOf Free = 0"
| "unsignedOf Expensive = 1"
| "unsignedOf CannotBeInlined = UINT_MAX"

definition getCallee :: "SILValue \<Rightarrow> Failure + SILValue" where
  "getCallee AI = getOperand AI 0"

definition getReferencedFunction :: "SILValue \<Rightarrow> SILFunctionDecl" where
  "getReferencedFunction FRI = referencedFunction (attrs FRI)"

text \<open>
  \<^verbatim>\<open>instructionInlineCost(SILInstruction &I, SILFunction *Caller)\<close>: the \<^verbatim>\<open>switch\<close> on
  \<^verbatim>\<open>I.getKind()\<close>, case group by case group in the order of the source. The parameter
  \<open>Caller\<close> is not read by the body; the recursion test compares the referenced function
  with \<^verbatim>\<open>AI->getFunction()\<close>, the function that contains the apply.
\<close>

definition instructionInlineCost :: "SILValue \<Rightarrow> SILFunctionDecl option \<Rightarrow> Failure + InlineCost" where
  "instructionInlineCost I Caller =
    (let K = getKind I in
     if K \<in> set [''BuiltinFunctionRefInst'', ''GlobalAddrInst'', ''IntegerLiteralInst'',
                  ''FloatLiteralInst'', ''DebugValueInst'', ''DebugValueAddrInst'',
                  ''StringLiteralInst'', ''FixLifetimeInst'', ''FunctionRefInst'',
                  ''SILGlobalAddrInst'']
     then Inr Free
     else if K \<in> set [''TupleElementAddrInst'', ''StructElementAddrInst'',
                       ''ProjectBlockStorageInst'']
     then Inr Free
     else if K \<in> set [''TupleInst'', ''StructInst'', ''StructExtractInst'', ''TupleExtractInst'']
     then Inr Free
     else if K \<in> set [''AddressToPointerInst'', ''PointerToAddressInst'',
                       ''UncheckedRefCastInst'', ''UncheckedAddrCastInst'',
                       ''UncheckedRefBitCastInst'', ''UncheckedTrivialBitCastInst'',
                       ''RawPointerToRefInst'', ''RefToRawPointerInst'',
                       ''UpcastExistentialRefInst'', ''UpcastInst'',
                       ''ThinToThickFunctionInst'', ''ConvertFunctionInst'',
                       ''ThickToObjCMetatypeInst'', ''ObjCToThickMetatypeInst'']
     then Inr Free
     else if K = ''MetatypeInst''
     then (case metatypeRepresentation (getType I) of
             None \<Rightarrow> Inl AssertionFailure
           | Some R \<Rightarrow> if R = Thin then Inr Free else Inr Expensive)
     else if K = ''ObjCProtocolInst''
     then Inr Free
     else if K \<in> set [''ObjCExistentialMetatypeToObjectInst'', ''ObjCMetatypeToObjectInst'']
     then Inr Free
     else if K \<in> set [''UnreachableInst'', ''ReturnInst'']
     then Inr Free
     else if K = ''ApplyInst''
     then bindF (getCallee I) (\<lambda>Callee.
            case dyn_cast ''FunctionRefInst'' Callee of
              Some FRI \<Rightarrow>
                if fnName (getReferencedFunction FRI) = getFunction I
                then Inr CannotBeInlined else Inr Expensive
            | None \<Rightarrow> Inr Expensive)
     else if K \<in> set [''AllocBoxInst'', ''AllocRefInst'', ''AllocRefDynamicInst'',
                       ''AllocStackInst'', ''ValueMetatypeInst'', ''WitnessMethodInst'',
                       ''AssignInst'', ''AutoreleaseReturnInst'', ''BranchInst'',
                       ''CheckedCastBranchInst'', ''CheckedCastAddrBranchInst'',
                       ''ClassMethodInst'', ''CondBranchInst'', ''CondFailInst'',
                       ''CopyBlockInst'', ''CopyAddrInst'', ''RetainValueInst'',
                       ''DeallocBoxInst'', ''DeallocRefInst'', ''DeallocStackInst'',
                       ''DeinitExistentialInst'', ''DestroyAddrInst'', ''ReleaseValueInst'',
                       ''AutoreleaseValueInst'', ''DynamicMethodBranchInst'',
                       ''DynamicMethodInst'', ''EnumInst'', ''EnumIsTagInst'',
                       ''IndexAddrInst'', ''IndexRawPointerInst'', ''InitEnumDataAddrInst'',
                       ''InitExistentialInst'', ''InitExistentialRefInst'',
                       ''InjectEnumAddrInst'', ''IsNonnullInst'', ''LoadInst'',
                       ''LoadWeakInst'', ''OpenExistentialInst'', ''OpenExistentialRefInst'',
                       ''PartialApplyInst'', ''ProjectExistentialInst'',
                       ''ProjectExistentialRefInst'', ''ExistentialMetatypeInst'',
                       ''ProtocolMethodInst'', ''RefElementAddrInst'', ''RefToUnmanagedInst'',
                       ''RefToUnownedInst'', ''StoreInst'', ''StoreWeakInst'',
                       ''StrongReleaseInst'', ''StrongRetainAutoreleasedInst'',
                       ''StrongRetainInst'', ''StrongRetainUnownedInst'', ''SuperMethodInst'',
                       ''SwitchEnumAddrInst'', ''SwitchEnumInst'', ''SwitchIntInst'',
                       ''UncheckedEnumDataInst'', ''UncheckedTakeEnumDataAddrInst'',
                       ''UnconditionalCheckedCastInst'',
                       ''UnconditionalCheckedCastAddrInst'', ''UnmanagedToRefInst'',
                       ''UnownedReleaseInst'', ''UnownedRetainInst'', ''UnownedToRefInst'',
                       ''UpcastExistentialInst'', ''InitBlockStorageHeaderInst'']
     then Inr Expensive
     else if K \<in> set [''SILArgument'', ''SILUndef'']
     then Inl UnreachableExecuted
     else if K \<in> set [''MarkFunctionEscapeInst'', ''MarkUninitializedInst'']
     then Inl UnreachableExecuted
     else Inl UnreachableExecuted)"

text \<open>
  \<^verbatim>\<open>getFunctionCost(SILFunction *F, SILFunction *Caller, unsigned Cutoff)\<close>. The inner loop
  runs over the instructions of one block and the outer loop over the blocks; a
  \<^verbatim>\<open>return\<close> inside the inner loop leaves both. \<open>Cost\<close> is an \<^verbatim>\<open>unsigned\<close>, a 32-bit
  word whose addition wraps. The \<^verbatim>\<open>DEBUG(continue)\<close> line changes nothing and is left
  out: the macro puts its argument in a loop of its own, which is all the \<^verbatim>\<open>continue\<close>
  leaves.
\<close>

datatype 'a LoopExit = Returned 'a | FellThrough 'a

fun getFunctionCost_BB ::
  "SILFunctionDecl option \<Rightarrow> 32 word \<Rightarrow> SILValue list \<Rightarrow> 32 word \<Rightarrow> Failure + 32 word LoopExit" where
  "getFunctionCost_BB Caller Cutoff [] Cost = Inr (FellThrough Cost)"
| "getFunctionCost_BB Caller Cutoff (I # Is) Cost =
     (case instructionInlineCost I Caller of
        Inl e \<Rightarrow> Inl e
      | Inr ICost \<Rightarrow>
          if ICost = CannotBeInlined then Inr (Returned UINT_MAX)
          else let Cost' = Cost + unsignedOf ICost in
               if Cost' > Cutoff then Inr (Returned Cost')
               else getFunctionCost_BB Caller Cutoff Is Cost')"

fun getFunctionCost_Blocks ::
  "SILFunctionDecl option \<Rightarrow> 32 word \<Rightarrow> SILBasicBlock list \<Rightarrow> 32 word \<Rightarrow> Failure + 32 word" where
  "getFunctionCost_Blocks Caller Cutoff [] Cost = Inr Cost"
| "getFunctionCost_Blocks Caller Cutoff (BB # BBs) Cost =
     (case getFunctionCost_BB Caller Cutoff (Insts BB) Cost of
        Inl e \<Rightarrow> Inl e
      | Inr (Returned r) \<Rightarrow> Inr r
      | Inr (FellThrough Cost') \<Rightarrow> getFunctionCost_Blocks Caller Cutoff BBs Cost')"

definition getFunctionCost ::
  "SILFunction \<Rightarrow> SILFunctionDecl option \<Rightarrow> 32 word \<Rightarrow> Failure + 32 word" where
  "getFunctionCost F Caller Cutoff =
     (if fnIsTransparent (fnDecl F) then Inr 0
      else getFunctionCost_Blocks Caller Cutoff (Blocks F) 0)"

text \<open>The instructions of a function in IR order, and the function with one of them removed.\<close>

definition allInsts :: "SILFunction \<Rightarrow> SILValue list" where
  "allInsts F = concat (map Insts (Blocks F))"

definition removeInstAt :: "SILFunction \<Rightarrow> nat \<Rightarrow> nat \<Rightarrow> SILFunction" where
  "removeInstAt F b i =
     F \<lparr> Blocks := (Blocks F) [b := (Blocks F ! b)
            \<lparr> Insts := take i (Insts (Blocks F ! b)) @ drop (Suc i) (Insts (Blocks F ! b)) \<rparr>] \<rparr>"

text \<open>An apply whose callee is a \<^verbatim>\<open>function_ref\<close> to the function named \<open>Fn\<close>.\<close>

definition isApplyOfFunctionRefTo :: "string \<Rightarrow> SILValue \<Rightarrow> bool" where
  "isApplyOfFunctionRefTo Fn I =
     (getKind I = ''ApplyInst'' \<and>
      (case getOperands I of
         [] \<Rightarrow> False
       | Callee # Args \<Rightarrow> getKind Callee = ''FunctionRefInst'' \<and>
                         fnName (getReferencedFunction Callee) = Fn))"

definition isExpensive :: "SILFunctionDecl option \<Rightarrow> SILValue \<Rightarrow> bool" where
  "isExpensive Caller I = (instructionInlineCost I Caller = Inr Expensive)"

definition hasCost :: "SILFunctionDecl option \<Rightarrow> SILValue \<Rightarrow> bool" where
  "hasCost Caller I = (case instructionInlineCost I Caller of Inl e \<Rightarrow> False | Inr c \<Rightarrow> True)"

fun exitValue :: "'a LoopExit \<Rightarrow> 'a" where
  "exitValue (Returned r) = r"
| "exitValue (FellThrough c) = c"

section \<open>The peephole rules (\<^verbatim>\<open>SILCombinerVisitors.cpp\<close>)\<close>

text \<open>
  A visitor returns a pointer: null when there is nothing to put in the place of the
  visited instruction, or a new instruction that the driver substitutes for it. Besides
  the result, a visitor acts on the function through the combiner: the \<^verbatim>\<open>Builder\<close>
  inserts the instructions it creates before the visited one, and
  \<^verbatim>\<open>eraseInstFromFunction\<close> removes an instruction and returns null. The state records
  both, and the identity that the next allocated instruction object receives.
\<close>

record SILCombiner =
  NextIdent :: nat
  Inserted :: "SILValue list"
  Erased :: "nat list"

type_synonym CombineResult = "Failure + (SILValue option \<times> SILCombiner)"

definition allocInst ::
  "SILCombiner \<Rightarrow> ValueKind \<Rightarrow> SILType \<Rightarrow> SILValue list \<Rightarrow> InstAttrs \<Rightarrow> SILValue \<times> SILCombiner" where
  "allocInst C K T Ops A =
     (ValueBase (NextIdent C) K T Ops A, C \<lparr> NextIdent := Suc (NextIdent C) \<rparr>)"

definition builderInsert :: "SILValue \<times> SILCombiner \<Rightarrow> SILValue \<times> SILCombiner" where
  "builderInsert IC = (case IC of (I, C) \<Rightarrow> (I, C \<lparr> Inserted := Inserted C @ [I] \<rparr>))"

definition eraseInstFromFunction :: "SILCombiner \<Rightarrow> SILValue \<Rightarrow> CombineResult" where
  "eraseInstFromFunction C I = Inr (None, C \<lparr> Erased := Erased C @ [ident I] \<rparr>)"

definition replaceWith :: "SILValue \<times> SILCombiner \<Rightarrow> CombineResult" where
  "replaceWith IC = (case IC of (I, C) \<Rightarrow> Inr (Some I, C))"

definition createStringLiteral ::
  "SILCombiner \<Rightarrow> string \<Rightarrow> SILLocation \<Rightarrow> string \<Rightarrow> Encoding \<Rightarrow> SILValue \<times> SILCombiner" where
  "createStringLiteral C Fn Loc V E =
     builderInsert (allocInst C ''StringLiteralInst'' RawPointerType []
       ((mkAttrs Fn Loc) \<lparr> stringValue := V, stringEncoding := E \<rparr>))"

definition IntegerLiteralInst_create ::
  "SILCombiner \<Rightarrow> string \<Rightarrow> SILLocation \<Rightarrow> SILType \<Rightarrow> APInt \<Rightarrow> SILValue \<times> SILCombiner" where
  "IntegerLiteralInst_create C Fn Loc Ty V =
     allocInst C ''IntegerLiteralInst'' Ty [] ((mkAttrs Fn Loc) \<lparr> integerValue := V \<rparr>)"

definition createIntegerLiteral ::
  "SILCombiner \<Rightarrow> string \<Rightarrow> SILLocation \<Rightarrow> SILType \<Rightarrow> APInt \<Rightarrow> SILValue \<times> SILCombiner" where
  "createIntegerLiteral C Fn Loc Ty V = builderInsert (IntegerLiteralInst_create C Fn Loc Ty V)"

subsection \<open>\<^verbatim>\<open>unchecked_enum_data\<close>\<close>

fun isFirstPayloadedCase :: "EnumElementDecl list \<Rightarrow> EnumElementDecl \<Rightarrow> bool" where
  "isFirstPayloadedCase [] Elt = False"
| "isFirstPayloadedCase (Iter # Rest) Elt =
     (if hasArgumentType Iter then Iter = Elt else isFirstPayloadedCase Rest Elt)"

definition getElement :: "SILValue \<Rightarrow> EnumElementDecl" where
  "getElement I = enumElement (attrs I)"

definition visitUncheckedEnumDataInst :: "SILCombiner \<Rightarrow> SILValue \<Rightarrow> CombineResult" where
  "visitUncheckedEnumDataInst C UEDI =
     bindF (getOperand UEDI 0) (\<lambda>Op.
       let OpType = getType Op in
       if hasArchetype OpType \<or> isTrivial OpType then Inr (None, C)
       else case dyn_cast ''UncheckedRefBitCastInst'' Op of
         None \<Rightarrow> Inr (None, C)
       | Some URBCI \<Rightarrow>
           (case getEnumOrBoundGenericEnum OpType of
              None \<Rightarrow> Inl NullDereference
            | Some E \<Rightarrow>
                if \<not> isFirstPayloadedCase E (getElement UEDI) then Inr (None, C)
                else bindF (getOperand URBCI 0) (\<lambda>X.
                  replaceWith (allocInst C ''UncheckedRefBitCastInst'' (getType UEDI) [X]
                                 (mkAttrs (getFunction UEDI) (getLoc UEDI))))))"

subsection \<open>\<^verbatim>\<open>release_value\<close> and \<^verbatim>\<open>retain_value\<close>\<close>

text \<open>
  The test on an \<^verbatim>\<open>EnumInst\<close> operand comes first. \<^verbatim>\<open>EI->hasOperand()\<close> is whether the
  enum instruction has a payload operand; the second \<^verbatim>\<open>if (EI->hasOperand())\<close> of the
  source is always taken when it is reached.
\<close>

definition visitReleaseValueInst :: "SILCombiner \<Rightarrow> SILValue \<Rightarrow> CombineResult" where
  "visitReleaseValueInst C RVI =
     bindF (getOperand RVI 0) (\<lambda>Operand.
       let OperandTy = getType Operand;
           Fn = getFunction RVI;
           Rest =
             (if hasReferenceSemantics OperandTy
              then replaceWith (allocInst C ''StrongReleaseInst'' noResultType [Operand]
                                  (mkAttrs Fn (getLoc RVI)))
              else if isTrivial OperandTy then eraseInstFromFunction C RVI
              else Inr (None, C))
       in case dyn_cast ''EnumInst'' Operand of
            Some EI \<Rightarrow>
              (case getOperands EI of
                 [] \<Rightarrow> eraseInstFromFunction C RVI
               | Payload # _ \<Rightarrow>
                   if isTrivial (getType Payload) then eraseInstFromFunction C RVI
                   else replaceWith (allocInst C ''ReleaseValueInst'' noResultType [Payload]
                                       (mkAttrs Fn (getLoc RVI))))
          | None \<Rightarrow> Rest)"

text \<open>
  \<^verbatim>\<open>visitRetainValueInst\<close> ends with a peephole on the instruction before the retain in
  its block: \<open>BB\<close> is \<^verbatim>\<open>RVI->getParent()\<close>, and \<open>prevInst\<close> finds the predecessor of the
  instruction with the identity of \<open>RVI\<close> (none when it is the first).
\<close>

fun prevInst :: "SILValue list \<Rightarrow> nat \<Rightarrow> SILValue option" where
  "prevInst [] i = None"
| "prevInst (a # rest) i =
     (if ident a = i then None
      else case rest of
             [] \<Rightarrow> None
           | b # _ \<Rightarrow> if ident b = i then Some a else prevInst rest i)"

definition visitRetainValueInst :: "SILCombiner \<Rightarrow> SILBasicBlock \<Rightarrow> SILValue \<Rightarrow> CombineResult" where
  "visitRetainValueInst C BB RVI =
     bindF (getOperand RVI 0) (\<lambda>Operand.
       let OperandTy = getType Operand;
           Fn = getFunction RVI;
           Peephole =
             (case prevInst (Insts BB) (ident RVI) of
                None \<Rightarrow> Inr (None, C)
              | Some Pred \<Rightarrow>
                  (case dyn_cast ''ReleaseValueInst'' Pred of
                     None \<Rightarrow> Inr (None, C)
                   | Some Release \<Rightarrow>
                       bindF (getOperand Release 0) (\<lambda>RelOp.
                         if ident RelOp = ident Operand
                         then bindF (eraseInstFromFunction C Release) (\<lambda>r.
                                eraseInstFromFunction (snd r) RVI)
                         else Inr (None, C))));
           Rest =
             (if hasReferenceSemantics OperandTy
              then replaceWith (allocInst C ''StrongRetainInst'' noResultType [Operand]
                                  (mkAttrs Fn (getLoc RVI)))
              else if isTrivial OperandTy then eraseInstFromFunction C RVI
              else Peephole)
       in case dyn_cast ''EnumInst'' Operand of
            Some EI \<Rightarrow>
              (case getOperands EI of
                 [] \<Rightarrow> eraseInstFromFunction C RVI
               | Payload # _ \<Rightarrow>
                   if isTrivial (getType Payload) then eraseInstFromFunction C RVI
                   else replaceWith (allocInst C ''RetainValueInst'' noResultType [Payload]
                                       (mkAttrs Fn (getLoc RVI))))
          | None \<Rightarrow> Rest)"

subsection \<open>\<^verbatim>\<open>cond_br\<close>\<close>

text \<open>
  A \<^verbatim>\<open>CondBranchInst\<close> has the condition as operand 0, followed by the arguments of the
  true destination and then those of the false destination.
\<close>

definition getCondition :: "SILValue \<Rightarrow> Failure + SILValue" where
  "getCondition CBI = getOperand CBI 0"

definition getTrueBB :: "SILValue \<Rightarrow> nat" where
  "getTrueBB CBI = trueBB (attrs CBI)"

definition getFalseBB :: "SILValue \<Rightarrow> nat" where
  "getFalseBB CBI = falseBB (attrs CBI)"

definition getTrueArgs :: "SILValue \<Rightarrow> SILValue list" where
  "getTrueArgs CBI = take (numTrueArgs (attrs CBI)) (tl (getOperands CBI))"

definition getFalseArgs :: "SILValue \<Rightarrow> SILValue list" where
  "getFalseArgs CBI = drop (numTrueArgs (attrs CBI)) (tl (getOperands CBI))"

definition CondBranchInst_create ::
  "SILCombiner \<Rightarrow> string \<Rightarrow> SILLocation \<Rightarrow> SILValue \<Rightarrow> nat \<Rightarrow> SILValue list \<Rightarrow> nat \<Rightarrow> SILValue list
     \<Rightarrow> SILValue \<times> SILCombiner" where
  "CondBranchInst_create C Fn Loc Cond TBB TArgs FBB FArgs =
     allocInst C ''CondBranchInst'' noResultType (Cond # TArgs @ FArgs)
       ((mkAttrs Fn Loc) \<lparr> trueBB := TBB, falseBB := FBB, numTrueArgs := length TArgs \<rparr>)"

text \<open>
  Modelled from the spec: the pattern matchers of \<^verbatim>\<open>swift/SIL/PatternMatch.h\<close>, which is
  not among the source files. Section 4.1 of the specification gives the primitives:
  \<^verbatim>\<open>constOne\<close> matches the integer literal 1, and \<^verbatim>\<open>applyOf(builtinKind, subMatchers...)\<close>
  matches an apply of the builtin whose arguments match the sub-matchers in order,
  binding the captures.
\<close>

definition m_One :: "SILValue \<Rightarrow> bool" where
  "m_One V = (getKind V = ''IntegerLiteralInst'' \<and> VAL (integerValue (attrs V)) = 1)"

definition calleeIsBuiltin :: "BuiltinValueKind \<Rightarrow> SILValue \<Rightarrow> bool" where
  "calleeIsBuiltin Kind V =
     (getKind V = ''ApplyInst'' \<and>
      (case getOperands V of
         [] \<Rightarrow> False
       | Callee # Args \<Rightarrow> getKind Callee = ''BuiltinFunctionRefInst'' \<and>
                         builtinID (attrs Callee) = Kind))"

definition match_Xor_X_One :: "SILValue \<Rightarrow> SILValue option" where
  "match_Xor_X_One V =
     (if calleeIsBuiltin ''Xor'' V
      then (case tl (getOperands V) of
              X # One # Rest \<Rightarrow> if m_One One then Some X else None
            | _ \<Rightarrow> None)
      else None)"

definition visitCondBranchInst :: "SILCombiner \<Rightarrow> SILValue \<Rightarrow> CombineResult" where
  "visitCondBranchInst C CBI =
     bindF (getCondition CBI) (\<lambda>Cond.
       case match_Xor_X_One Cond of
         Some X \<Rightarrow>
           (let OrigTrueArgs = getTrueArgs CBI; OrigFalseArgs = getFalseArgs CBI in
            replaceWith (CondBranchInst_create C (getFunction CBI) (getLoc CBI) X
                           (getFalseBB CBI) OrigFalseArgs (getTrueBB CBI) OrigTrueArgs))
       | None \<Rightarrow> Inr (None, C))"

subsection \<open>Builtin comparisons\<close>

text \<open>
  \<^verbatim>\<open>isZeroValue\<close> belongs to the value-tracking analysis, which is not among the source
  files: it is a parameter. Argument \<open>i\<close> of an apply is its operand \<open>i + 1\<close>.
\<close>

definition getArgument :: "SILValue \<Rightarrow> nat \<Rightarrow> Failure + SILValue" where
  "getArgument AI i = getOperand AI (Suc i)"

definition optimizeBuiltinCompareEq ::
  "(SILValue \<Rightarrow> IsZeroKind) \<Rightarrow> SILCombiner \<Rightarrow> SILValue \<Rightarrow> bool \<Rightarrow> CombineResult" where
  "optimizeBuiltinCompareEq isZeroValue C AI NegateResult =
     bindF (getArgument AI 0) (\<lambda>A0. bindF (getArgument AI 1) (\<lambda>A1.
       let LHS = isZeroValue A0; RHS = isZeroValue A1 in
       if LHS = Unknown \<or> RHS = Unknown then Inr (None, C)
       else if LHS = NotZero \<and> RHS = NotZero then Inr (None, C)
       else let Val = ((LHS = RHS) \<noteq> NegateResult) in
            replaceWith (IntegerLiteralInst_create C (getFunction AI) (getLoc AI) (getType AI)
                           (mkAPInt 1 (if Val then 1 else 0)))))"

subsection \<open>Concatenation of string literals\<close>

text \<open>
  The members of the class \<^verbatim>\<open>StringConcatenationOptimizer\<close> that its methods fill in
  (\<open>AI\<close> and the builder are passed to the methods). \<^verbatim>\<open>extractStringConcatOperands\<close>
  returns false (\<open>None\<close>) or true with the six operand members set.
\<close>

record StringConcatenationOptimizer =
  SLILeft :: SILValue
  SLIRight :: SILValue
  FRILeft :: SILValue
  FRIRight :: SILValue
  AILeft :: SILValue
  AIRight :: SILValue
  FRIConvertFromBuiltin :: "SILValue option"
  IsTransparent :: bool
  FuncResultType :: "SILValue option"

definition getEncoding :: "SILValue \<Rightarrow> Encoding" where
  "getEncoding SLI = stringEncoding (attrs SLI)"

definition getStringValue :: "SILValue \<Rightarrow> string" where
  "getStringValue SLI = stringValue (attrs SLI)"

definition getValue :: "SILValue \<Rightarrow> APInt" where
  "getValue ILI = integerValue (attrs ILI)"

definition isTransparentApply :: "SILValue \<Rightarrow> bool" where
  "isTransparentApply AI = applyIsTransparent (attrs AI)"

definition extractStringConcatOperands ::
  "SILValue \<Rightarrow> Failure + StringConcatenationOptimizer option" where
  "extractStringConcatOperands AI =
     bindF (getCallee AI) (\<lambda>Callee.
     case dyn_cast ''FunctionRefInst'' Callee of
       None \<Rightarrow> Inr None
     | Some FRI \<Rightarrow>
       let FRIFun = getReferencedFunction FRI in
       if getNumOperands AI \<noteq> 3 \<or> \<not> hasSemanticsString FRIFun ''string.concat''
       then Inr None
       else
       bindF (getOperand AI 1) (\<lambda>Op1. bindF (getOperand AI 2) (\<lambda>Op2.
       case (dyn_cast ''ApplyInst'' Op1, dyn_cast ''ApplyInst'' Op2) of
         (Some AIL, Some AIR) \<Rightarrow>
           bindF (getCallee AIL) (\<lambda>CalleeL. bindF (getCallee AIR) (\<lambda>CalleeR.
           case (dyn_cast ''FunctionRefInst'' CalleeL, dyn_cast ''FunctionRefInst'' CalleeR) of
             (Some FRIL, Some FRIR) \<Rightarrow>
               let FRILeftFun = getReferencedFunction FRIL;
                   FRIRightFun = getReferencedFunction FRIR in
               if effectsRank (fnEffectsInfo FRILeftFun) \<ge> effectsRank ReadWrite \<or>
                  effectsRank (fnEffectsInfo FRIRightFun) \<ge> effectsRank ReadWrite
               then Inr None
               else if \<not> hasDefinedSemantics FRILeftFun \<or> \<not> hasDefinedSemantics FRIRightFun
               then Inr None
               else
               let SemanticsLeft = fnSemanticsAttr FRILeftFun;
                   SemanticsRight = fnSemanticsAttr FRIRightFun;
                   AILeftOperandsNum = getNumOperands AIL;
                   AIRightOperandsNum = getNumOperands AIR in
               if \<not> ((SemanticsLeft = ''string.makeUTF16'' \<and> AILeftOperandsNum = 4) \<or>
                      (SemanticsLeft = ''string.makeUTF8'' \<and> AILeftOperandsNum = 5) \<or>
                      (SemanticsRight = ''string.makeUTF16'' \<and> AIRightOperandsNum = 4) \<or>
                      (SemanticsRight = ''string.makeUTF8'' \<and> AIRightOperandsNum = 5))
               then Inr None
               else
               bindF (getOperand AIL 1) (\<lambda>L1. bindF (getOperand AIR 1) (\<lambda>R1.
               case (dyn_cast ''StringLiteralInst'' L1, dyn_cast ''StringLiteralInst'' R1) of
                 (Some SLIL, Some SLIR) \<Rightarrow>
                   if getEncoding SLIL \<noteq> UTF8 \<and> getEncoding SLIL \<noteq> UTF16 then Inr None
                   else if getEncoding SLIR \<noteq> UTF8 \<and> getEncoding SLIR \<noteq> UTF16 then Inr None
                   else Inr (Some \<lparr> SLILeft = SLIL, SLIRight = SLIR, FRILeft = FRIL,
                                    FRIRight = FRIR, AILeft = AIL, AIRight = AIR,
                                    FRIConvertFromBuiltin = None, IsTransparent = False,
                                    FuncResultType = None \<rparr>)
               | _ \<Rightarrow> Inr None))
           | _ \<Rightarrow> Inr None))
       | _ \<Rightarrow> Inr None)))"

definition adjustEncodings ::
  "SILCombiner \<Rightarrow> SILValue \<Rightarrow> StringConcatenationOptimizer
     \<Rightarrow> Failure + (StringConcatenationOptimizer \<times> SILCombiner)" where
  "adjustEncodings C AI S =
     (if getEncoding (SLILeft S) = getEncoding (SLIRight S)
      then bindF (getOperand (AILeft S) (if getEncoding (SLILeft S) = UTF8 then 4 else 3)) (\<lambda>T.
             Inr (S \<lparr> FRIConvertFromBuiltin := Some (FRILeft S),
                       IsTransparent := isTransparentApply (AILeft S),
                       FuncResultType := Some T \<rparr>, C))
      else
        bindF (if getEncoding (SLILeft S) = UTF8 \<and> getEncoding (SLIRight S) = UTF16
               then bindF (getOperand (AIRight S) 3) (\<lambda>T.
                      case createStringLiteral C (getFunction AI) (getLoc AI)
                             (getStringValue (SLILeft S)) UTF16 of
                        (New, C1) \<Rightarrow>
                          Inr (S \<lparr> FuncResultType := Some T,
                                    FRIConvertFromBuiltin := Some (FRIRight S),
                                    IsTransparent := isTransparentApply (AIRight S),
                                    SLILeft := New \<rparr>, C1))
               else Inr (S, C)) (\<lambda>(S1, C1).
        bindF (if getEncoding (SLIRight S1) = UTF8 \<and> getEncoding (SLILeft S1) = UTF16
               then bindF (getOperand (AILeft S1) 3) (\<lambda>T.
                      case createStringLiteral C1 (getFunction AI) (getLoc AI)
                             (getStringValue (SLIRight S1)) UTF16 of
                        (New, C2) \<Rightarrow>
                          Inr (S1 \<lparr> FuncResultType := Some T,
                                     FRIConvertFromBuiltin := Some (FRILeft S1),
                                     IsTransparent := isTransparentApply (AILeft S1),
                                     SLIRight := New \<rparr>, C2))
               else Inr (S1, C1)) (\<lambda>(S2, C2).
        if getEncoding (SLILeft S2) = getEncoding (SLIRight S2) then Inr (S2, C2)
        else Inl AssertionFailure)))"

text \<open>
  \<^verbatim>\<open>StringLiteralInst::getCodeUnitCount\<close> is not among the source files: the count of the
  code units of a value in an encoding is the parameter \<open>codeUnits\<close>. An \<^verbatim>\<open>APInt\<close> is
  equal to a \<^verbatim>\<open>uint64_t\<close> when its value is; the sum of two of them needs equal bit
  widths and wraps at the width.
\<close>

definition getCodeUnitCount :: "(Encoding \<Rightarrow> string \<Rightarrow> nat) \<Rightarrow> SILValue \<Rightarrow> nat" where
  "getCodeUnitCount codeUnits SLI = codeUnits (getEncoding SLI) (getStringValue SLI)"

definition APInt_add :: "APInt \<Rightarrow> APInt \<Rightarrow> Failure + APInt" where
  "APInt_add a b =
     (if BitWidth a \<noteq> BitWidth b then Inl AssertionFailure
      else Inr (mkAPInt (BitWidth a) (VAL a + VAL b)))"

definition getConcatenatedLength ::
  "(Encoding \<Rightarrow> string \<Rightarrow> nat) \<Rightarrow> StringConcatenationOptimizer \<Rightarrow> Failure + APInt" where
  "getConcatenatedLength codeUnits S =
     (let SLILenLeft = getCodeUnitCount codeUnits (SLILeft S);
          SLILenRight = getCodeUnitCount codeUnits (SLIRight S) in
      bindF (getOperand (AILeft S) 2) (\<lambda>L2. bindF (getOperand (AIRight S) 2) (\<lambda>R2.
        case dyn_cast ''IntegerLiteralInst'' L2 of
          None \<Rightarrow> Inl NullDereference
        | Some LenLeft \<Rightarrow>
            if SLILenLeft \<noteq> VAL (getValue LenLeft) then Inl AssertionFailure
            else (case dyn_cast ''IntegerLiteralInst'' R2 of
                    None \<Rightarrow> Inl NullDereference
                  | Some LenRight \<Rightarrow>
                      if SLILenRight \<noteq> VAL (getValue LenRight) then Inl AssertionFailure
                      else APInt_add (getValue LenLeft) (getValue LenRight)))))"

definition isAscii :: "StringConcatenationOptimizer \<Rightarrow> Failure + bool" where
  "isAscii S =
     bindF (getOperand (AILeft S) 3) (\<lambda>L3. bindF (getOperand (AIRight S) 3) (\<lambda>R3.
       case (dyn_cast ''IntegerLiteralInst'' L3, dyn_cast ''IntegerLiteralInst'' R3) of
         (Some AsciiLeft, Some AsciiRight) \<Rightarrow>
           (let IsAsciiLeft = (VAL (getValue AsciiLeft) = 1);
                IsAsciiRight = (VAL (getValue AsciiRight) = 1) in
            Inr (IsAsciiLeft \<and> IsAsciiRight))
       | _ \<Rightarrow> Inl NullDereference))"

text \<open>
  \<^verbatim>\<open>ApplyInst::create\<close>: operand 0 is the callee, then the arguments. The result type of
  the new call is the result of the function type of the callee, which for a
  \<^verbatim>\<open>function_ref\<close> is the type of the referenced function. The integer literal made from
  an \<^verbatim>\<open>intmax_t\<close> takes its width from the builtin integer type it is given (the cast to
  \<^verbatim>\<open>BuiltinIntegerType\<close> asserts that it is one, and the constructor of \<^verbatim>\<open>APInt\<close> that
  the width is not 0).
\<close>

definition ApplyInst_create ::
  "SILCombiner \<Rightarrow> string \<Rightarrow> SILLocation \<Rightarrow> SILValue \<Rightarrow> SILType \<Rightarrow> SILValue list \<Rightarrow> bool
     \<Rightarrow> SILValue \<times> SILCombiner" where
  "ApplyInst_create C Fn Loc Callee ResultTy Args Transparent =
     allocInst C ''ApplyInst'' ResultTy (Callee # Args)
       ((mkAttrs Fn Loc) \<lparr> applyIsTransparent := Transparent \<rparr>)"

definition StringConcatenationOptimizer_optimize ::
  "(Encoding \<Rightarrow> string \<Rightarrow> nat) \<Rightarrow> SILCombiner \<Rightarrow> SILValue \<Rightarrow> CombineResult" where
  "StringConcatenationOptimizer_optimize codeUnits C AI =
     bindF (extractStringConcatOperands AI) (\<lambda>E.
     case E of
       None \<Rightarrow> Inr (None, C)
     | Some S0 \<Rightarrow>
       bindF (adjustEncodings C AI S0) (\<lambda>(S, C1).
       let Fn = getFunction AI; Loc = getLoc AI;
           Encoding = getEncoding (SLILeft S);
           LV = getStringValue (SLILeft S);
           RV = getStringValue (SLIRight S) in
       case createStringLiteral C1 Fn Loc (LV @ RV) Encoding of (NewSLI, C2) \<Rightarrow>
       bindF (getOperand (AILeft S) 2) (\<lambda>L2.
       bindF (getConcatenatedLength codeUnits S) (\<lambda>N.
       case createIntegerLiteral C2 Fn Loc (getType L2) N of (Len, C3) \<Rightarrow>
       bindF (if Encoding = UTF8
              then bindF (isAscii S) (\<lambda>IsAscii.
                   bindF (getOperand (AILeft S) 3) (\<lambda>L3.
                   case integerWidth (getType L3) of
                     None \<Rightarrow> Inl AssertionFailure
                   | Some w \<Rightarrow>
                       if w = 0 then Inl AssertionFailure
                       else (case createIntegerLiteral C3 Fn Loc (getType L3)
                                    (mkAPInt w (if IsAscii then 1 else 0)) of
                               (Ascii, C4) \<Rightarrow> Inr ([Ascii], C4))))
              else Inr ([], C3)) (\<lambda>(AsciiArgs, C4).
       case (FuncResultType S, FRIConvertFromBuiltin S) of
         (Some T, Some FRI) \<Rightarrow>
           replaceWith (ApplyInst_create C4 Fn Loc FRI
                          (fnResultType (getReferencedFunction FRI))
                          ([NewSLI, Len] @ AsciiArgs @ [T]) (IsTransparent S))
       | _ \<Rightarrow> Inl NullDereference)))))"

definition optimizeConcatenationOfStringLiterals ::
  "(Encoding \<Rightarrow> string \<Rightarrow> nat) \<Rightarrow> SILCombiner \<Rightarrow> SILValue \<Rightarrow> CombineResult" where
  "optimizeConcatenationOfStringLiterals codeUnits C AI =
     StringConcatenationOptimizer_optimize codeUnits C AI"

text \<open>
  Two abbreviations for what \<^verbatim>\<open>adjustEncodings\<close> decides. The encoding of the
  concatenated literal is UTF-8 when both literals are UTF-8 and UTF-16 otherwise.
  \<open>convertFromSide\<close> is the operand call, with its \<^verbatim>\<open>function_ref\<close>, from which
  \<^verbatim>\<open>adjustEncodings\<close> takes \<open>FRIConvertFromBuiltin\<close>, \<open>IsTransparent\<close> and
  \<open>FuncResultType\<close>: the left call when the left literal already has the resulting
  encoding, the right call otherwise. The choice looks at the encodings of the literals
  only, never at the semantics attribute of the function that is called.
\<close>

definition resultEncoding :: "StringConcatenationOptimizer \<Rightarrow> Encoding" where
  "resultEncoding S =
     (if getEncoding (SLILeft S) = getEncoding (SLIRight S) then getEncoding (SLILeft S)
      else UTF16)"

definition convertFromSide :: "StringConcatenationOptimizer \<Rightarrow> SILValue \<times> SILValue" where
  "convertFromSide S =
     (if getEncoding (SLILeft S) = resultEncoding S then (AILeft S, FRILeft S)
      else (AIRight S, FRIRight S))"

subsection \<open>\<^verbatim>\<open>apply\<close>\<close>

text \<open>
  \<^verbatim>\<open>visitApplyInst\<close> tries its rules in a fixed order. The rules that are modelled above
  are called; the others are parameters, collected in \<open>ApplyRules\<close>: the three
  \<^verbatim>\<open>optimize...\<close> methods, the deletion of a call to a function without side effects
  whose users are all reference counting (\<open>eraseDeadApply\<close>: the new state when
  \<^verbatim>\<open>recursivelyCollectARCUsers\<close> succeeded, \<open>None\<close> when a user cannot be handled), and
  the rules after the string concatenation (\<open>laterApplyRules\<close>). The analyses that are
  not among the source files, \<^verbatim>\<open>isZeroValue\<close> and the count of code units, are
  parameters too.
\<close>

record ApplyRules =
  optimizeApplyOfPartialApply :: "SILCombiner \<Rightarrow> SILValue \<Rightarrow> SILValue \<Rightarrow> CombineResult"
  optimizeBuiltinCanBeObjCClass :: "SILCombiner \<Rightarrow> SILValue \<Rightarrow> CombineResult"
  optimizeApplyOfConvertFunctionInst :: "SILCombiner \<Rightarrow> SILValue \<Rightarrow> SILValue \<Rightarrow> CombineResult"
  eraseDeadApply :: "SILCombiner \<Rightarrow> SILValue \<Rightarrow> SILValue \<Rightarrow> SILCombiner option"
  laterApplyRules :: "SILCombiner \<Rightarrow> SILValue \<Rightarrow> CombineResult"
  isZeroValue :: "SILValue \<Rightarrow> IsZeroKind"
  codeUnitCount :: "Encoding \<Rightarrow> string \<Rightarrow> nat"

definition visitApplyInst :: "ApplyRules \<Rightarrow> SILCombiner \<Rightarrow> SILValue \<Rightarrow> CombineResult" where
  "visitApplyInst R C AI =
     bindF (getCallee AI) (\<lambda>Callee.
     case dyn_cast ''PartialApplyInst'' Callee of
       Some PAI \<Rightarrow> optimizeApplyOfPartialApply R C AI PAI
     | None \<Rightarrow>
       (case (case dyn_cast ''BuiltinFunctionRefInst'' Callee of
                Some BFRI \<Rightarrow>
                  if builtinID (attrs BFRI) = ''CanBeObjCClass''
                  then Some (optimizeBuiltinCanBeObjCClass R C AI)
                  else if builtinID (attrs BFRI) = ''ICMP_EQ''
                  then Some (optimizeBuiltinCompareEq (isZeroValue R) C AI False)
                  else if builtinID (attrs BFRI) = ''ICMP_NE''
                  then Some (optimizeBuiltinCompareEq (isZeroValue R) C AI True)
                  else None
              | None \<Rightarrow> None) of
          Some Result \<Rightarrow> Result
        | None \<Rightarrow>
          (case dyn_cast ''ConvertFunctionInst'' Callee of
             Some CFI \<Rightarrow> optimizeApplyOfConvertFunctionInst R C AI CFI
           | None \<Rightarrow>
             (let FRI = dyn_cast ''FunctionRefInst'' Callee;
                  BelowReadWrite =
                    (case FRI of
                       Some F \<Rightarrow> effectsRank (fnEffectsInfo (getReferencedFunction F))
                                   < effectsRank ReadWrite
                     | None \<Rightarrow> False) in
              case (case FRI of
                      Some F \<Rightarrow> if BelowReadWrite then eraseDeadApply R C AI F else None
                    | None \<Rightarrow> None) of
                Some C' \<Rightarrow> Inr (None, C')
              | None \<Rightarrow>
                  bindF (if BelowReadWrite
                         then optimizeConcatenationOfStringLiterals (codeUnitCount R) C AI
                         else Inr (None, C)) (\<lambda>(I, C').
                  case I of
                    Some New \<Rightarrow> Inr (Some New, C')
                  | None \<Rightarrow> laterApplyRules R C AI)))))"

section \<open>The inliner (\<^verbatim>\<open>SILInliner.cpp\<close>)\<close>

text \<open>
  The state of a \<^verbatim>\<open>SILInliner\<close>: its own members, those it inherits from the cloner
  (\<open>Original\<close> is the callee; the builder with its function \<open>BuilderF\<close>, the caller, and
  its insertion point; the maps), and what it changes outside itself: the functions the
  module has marked as inlined and the supply of identities for new values and blocks.
  The insertion point is a block and the instruction before which the builder inserts
  (\<open>None\<close>: at the end of the block). The maps are keyed by the identities of the
  callee's values and blocks; \<^verbatim>\<open>insert\<close> on a map keeps an existing entry.
\<close>

record SILInliner =
  IKind :: InlineKind
  Original :: SILFunction
  BuilderF :: SILFunction
  InsertionPoint :: "nat \<times> nat option"
  CalleeFunction :: "SILFunctionDecl option"
  CalleeEntryBB :: "SILBasicBlock option"
  InsertBeforeBB :: "nat option"
  InlinerLoc :: "SILLocation option"
  CallSiteScope :: "SILDebugScope option"
  ValueMap :: "(nat \<times> SILValue) list"
  InstructionMap :: "(nat \<times> SILValue) list"
  BBMap :: "(nat \<times> nat option) list"
  InlinedScopeCache :: "(SILDebugScope \<times> SILDebugScope) list"
  InlinedFunctions :: "string list"
  NextValue :: nat

definition mapInsert :: "('k \<times> 'v) list \<Rightarrow> 'k \<Rightarrow> 'v \<Rightarrow> ('k \<times> 'v) list" where
  "mapInsert m k v = (case map_of m k of Some old \<Rightarrow> m | None \<Rightarrow> m @ [(k, v)])"

subsection \<open>Changing the caller\<close>

text \<open>
  Modelled from the spec: the operations of the SIL library on functions, blocks and
  use lists (\<^verbatim>\<open>replaceAllUsesWith\<close>, \<^verbatim>\<open>eraseFromParent\<close>, \<^verbatim>\<open>splitBasicBlock\<close>, the
  insertion of the builder, the splice of the block list), which are not among the
  source files. Section 3 of the specification: replacing all uses of \<open>V\<close> with \<open>W\<close> moves
  all edges pointing at \<open>V\<close> to point at \<open>W\<close>; a block owns an ordered sequence of
  instructions and a function an ordered sequence of blocks. Section 4.7: the split
  gives the prefix before the insertion point and a return-to successor. Since a value
  carries its definition, redirecting the uses of \<open>Old\<close> rewrites the operands of every
  instruction, at any depth.
\<close>

fun replaceUses :: "nat \<Rightarrow> SILValue \<Rightarrow> SILValue \<Rightarrow> SILValue" where
  "replaceUses Old New (ValueBase i k t ops a) =
     ValueBase i k t (map (\<lambda>Op. if ident Op = Old then New else replaceUses Old New Op) ops) a"

definition mapInsts :: "(SILValue \<Rightarrow> SILValue) \<Rightarrow> SILFunction \<Rightarrow> SILFunction" where
  "mapInsts f Fn = Fn \<lparr> Blocks := map (\<lambda>B. B \<lparr> Insts := map f (Insts B) \<rparr>) (Blocks Fn) \<rparr>"

definition replaceAllUsesWith :: "SILFunction \<Rightarrow> nat \<Rightarrow> SILValue \<Rightarrow> SILFunction" where
  "replaceAllUsesWith Fn Old New = mapInsts (replaceUses Old New) Fn"

definition eraseFromParent :: "SILFunction \<Rightarrow> nat \<Rightarrow> SILFunction" where
  "eraseFromParent Fn i =
     Fn \<lparr> Blocks := map (\<lambda>B. B \<lparr> Insts := filter (\<lambda>I. ident I \<noteq> i) (Insts B) \<rparr>) (Blocks Fn) \<rparr>"

fun insertBeforeIdent :: "SILValue \<Rightarrow> nat \<Rightarrow> SILValue list \<Rightarrow> SILValue list" where
  "insertBeforeIdent New j [] = [New]"
| "insertBeforeIdent New j (I # Is) =
     (if ident I = j then New # I # Is else I # insertBeforeIdent New j Is)"

definition insertAt :: "nat option \<Rightarrow> SILValue \<Rightarrow> SILValue list \<Rightarrow> SILValue list" where
  "insertAt Pos New Is = (case Pos of None \<Rightarrow> Is @ [New] | Some j \<Rightarrow> insertBeforeIdent New j Is)"

definition builderInsertInst :: "SILFunction \<Rightarrow> nat \<times> nat option \<Rightarrow> SILValue \<Rightarrow> SILFunction" where
  "builderInsertInst Fn IP New =
     Fn \<lparr> Blocks := map (\<lambda>B. if bbIdent B = fst IP
                               then B \<lparr> Insts := insertAt (snd IP) New (Insts B) \<rparr> else B)
                        (Blocks Fn) \<rparr>"

definition findBlock :: "SILBasicBlock list \<Rightarrow> nat \<Rightarrow> SILBasicBlock option" where
  "findBlock Bs b = find (\<lambda>B. bbIdent B = b) Bs"

definition getParent :: "SILFunction \<Rightarrow> SILValue \<Rightarrow> SILBasicBlock option" where
  "getParent Fn I = find (\<lambda>B. ident I \<in> set (map ident (Insts B))) (Blocks Fn)"

text \<open>The instruction after \<open>I\<close> in its block, and the block after a block.\<close>

fun nextIdent :: "SILValue list \<Rightarrow> nat \<Rightarrow> nat option" where
  "nextIdent [] i = None"
| "nextIdent (a # rest) i =
     (if ident a = i then (case rest of [] \<Rightarrow> None | b # _ \<Rightarrow> Some (ident b))
      else nextIdent rest i)"

fun nextBlock :: "SILBasicBlock list \<Rightarrow> nat \<Rightarrow> nat option" where
  "nextBlock [] b = None"
| "nextBlock (a # rest) b =
     (if bbIdent a = b then (case rest of [] \<Rightarrow> None | c # _ \<Rightarrow> Some (bbIdent c))
      else nextBlock rest b)"

text \<open>
  Moving the block \<open>b\<close> in front of the block \<open>before\<close>, or to the end of the function
  (\<^verbatim>\<open>F.getBlocks().splice(...)\<close>).
\<close>

fun insertBlockBefore :: "SILBasicBlock \<Rightarrow> nat \<Rightarrow> SILBasicBlock list \<Rightarrow> SILBasicBlock list" where
  "insertBlockBefore New b [] = [New]"
| "insertBlockBefore New b (B # Bs) =
     (if bbIdent B = b then New # B # Bs else B # insertBlockBefore New b Bs)"

definition spliceBlock :: "SILFunction \<Rightarrow> nat option \<Rightarrow> nat \<Rightarrow> SILFunction" where
  "spliceBlock Fn Before b =
     (case findBlock (Blocks Fn) b of
        None \<Rightarrow> Fn
      | Some B \<Rightarrow>
          (let Others = filter (\<lambda>X. bbIdent X \<noteq> b) (Blocks Fn) in
           Fn \<lparr> Blocks := (case Before of
                              None \<Rightarrow> Others @ [B]
                            | Some n \<Rightarrow> insertBlockBefore B n Others) \<rparr>))"

text \<open>
  \<^verbatim>\<open>CallerBB->splitBasicBlock(InsertPoint)\<close>: the instructions from the insertion point
  on move to a new block, placed after the block that is split.
\<close>

definition splitInsts :: "nat option \<Rightarrow> SILValue list \<Rightarrow> SILValue list \<times> SILValue list" where
  "splitInsts Pos Is =
     (case Pos of
        None \<Rightarrow> (Is, [])
      | Some j \<Rightarrow> (takeWhile (\<lambda>I. ident I \<noteq> j) Is, dropWhile (\<lambda>I. ident I \<noteq> j) Is))"

definition splitBasicBlock :: "SILFunction \<Rightarrow> nat \<Rightarrow> nat option \<Rightarrow> nat \<Rightarrow> SILFunction" where
  "splitBasicBlock Fn b Pos NewIdent =
     Fn \<lparr> Blocks := concat (map (\<lambda>B.
             if bbIdent B = b
             then [B \<lparr> Insts := fst (splitInsts Pos (Insts B)) \<rparr>,
                   \<lparr> bbIdent = NewIdent, BBArgs = [], Insts = snd (splitInsts Pos (Insts B)) \<rparr>]
             else [B]) (Blocks Fn)) \<rparr>"

definition addBBArg :: "SILFunction \<Rightarrow> nat \<Rightarrow> SILValue \<Rightarrow> SILFunction" where
  "addBBArg Fn b Arg =
     Fn \<lparr> Blocks := map (\<lambda>B. if bbIdent B = b then B \<lparr> BBArgs := BBArgs B @ [Arg] \<rparr> else B)
                        (Blocks Fn) \<rparr>"

subsection \<open>The cloner\<close>

text \<open>
  Modelled from the spec: the class \<^verbatim>\<open>SILCloner\<close> and the hooks of \<^verbatim>\<open>SILInliner\<close> in its
  header, which are not among the source files. Section 4.6 of the specification: for
  each source instruction the cloner constructs a destination instruction by remapping
  every operand through the \<open>ValueMap\<close> and updating the map with the new result; blocks
  are visited in depth-first preorder from the entry, a destination block being created
  for each source block except those already in the \<open>BlockMap\<close>, which are skipped;
  terminators are cloned after all successor blocks exist, so that branches can be
  remapped. Section 4.7: all cloned instructions adopt the inlined location; under
  mandatory inlining they get the scope of the call site, under performance inlining an
  inline scope from the cache. A value or a block that is not mapped when it is needed
  stops the program.
\<close>

definition remapValue :: "SILInliner \<Rightarrow> SILValue \<Rightarrow> Failure + SILValue" where
  "remapValue S V =
     (case map_of (ValueMap S) (ident V) of
        Some W \<Rightarrow> Inr W
      | None \<Rightarrow> if getKind V = ''SILUndef'' then Inr V else Inl UnreachableExecuted)"

fun remapValues :: "SILInliner \<Rightarrow> SILValue list \<Rightarrow> Failure + SILValue list" where
  "remapValues S [] = Inr []"
| "remapValues S (V # Vs) =
     bindF (remapValue S V) (\<lambda>W. bindF (remapValues S Vs) (\<lambda>Ws. Inr (W # Ws)))"

definition remapBasicBlock :: "SILInliner \<Rightarrow> nat \<Rightarrow> Failure + nat" where
  "remapBasicBlock S b =
     (case map_of (BBMap S) b of Some (Some m) \<Rightarrow> Inr m | _ \<Rightarrow> Inl AssertionFailure)"

fun remapBasicBlocks :: "SILInliner \<Rightarrow> nat list \<Rightarrow> Failure + nat list" where
  "remapBasicBlocks S [] = Inr []"
| "remapBasicBlocks S (b # bs) =
     bindF (remapBasicBlock S b) (\<lambda>m. bindF (remapBasicBlocks S bs) (\<lambda>ms. Inr (m # ms)))"

definition isTermInst :: "SILValue \<Rightarrow> bool" where
  "isTermInst I =
     (getKind I \<in> set [''UnreachableInst'', ''ReturnInst'', ''AutoreleaseReturnInst'',
                        ''BranchInst'', ''CondBranchInst'', ''SwitchIntInst'',
                        ''SwitchEnumInst'', ''SwitchEnumAddrInst'',
                        ''DynamicMethodBranchInst'', ''CheckedCastBranchInst'',
                        ''CheckedCastAddrBranchInst''])"

definition getSuccessors :: "SILValue \<Rightarrow> nat list" where
  "getSuccessors T =
     (if getKind T \<in> set [''UnreachableInst'', ''ReturnInst'', ''AutoreleaseReturnInst'']
      then []
      else if getKind T = ''CondBranchInst'' then [trueBB (attrs T), falseBB (attrs T)]
      else successors (attrs T))"

definition getTerminator :: "SILBasicBlock \<Rightarrow> Failure + SILValue" where
  "getTerminator BB =
     (case Insts BB of
        [] \<Rightarrow> Inl AssertionFailure
      | _ \<Rightarrow> if isTermInst (last (Insts BB)) then Inr (last (Insts BB))
             else Inl AssertionFailure)"

text \<open>
  \<^verbatim>\<open>SILInliner::getOrCreateInlineScope\<close>. The scope of an instruction without one is the
  scope of its function, here the callee. The constructor of the inlined scope is
  modelled from section 4.7 (12) of the specification: the new scope keeps the location
  and function of the callee scope, and its parent and its \<open>InlinedCallSite\<close> are the
  scope of the call site, which makes the assertion of the source true.
\<close>

definition getOrCreateInlineScope :: "SILInliner \<Rightarrow> SILValue \<Rightarrow> Failure + (SILDebugScope \<times> SILInliner)" where
  "getOrCreateInlineScope S Orig =
     (let CalleeScope = (case instDebugScope (attrs Orig) of
                           Some Sc \<Rightarrow> Sc
                         | None \<Rightarrow> fnDebugScope (Original S)) in
      case map_of (InlinedScopeCache S) CalleeScope of
        Some Cached \<Rightarrow> Inr (Cached, S)
      | None \<Rightarrow>
          (case CallSiteScope S of
             None \<Rightarrow> Inl NullDereference
           | Some CS \<Rightarrow>
               (let InlineScope = DebugScope (scopeLoc CalleeScope) (scopeFn CalleeScope)
                                    (Some CS) (Some CS) in
                Inr (InlineScope,
                     S \<lparr> InlinedScopeCache :=
                           mapInsert (InlinedScopeCache S) CalleeScope InlineScope \<rparr>))))"

text \<open>
  The clone of one instruction, inserted at the insertion point of the builder. The
  successors are remapped when the instruction is a terminator.
\<close>

definition cloneInst :: "SILInliner \<Rightarrow> SILValue \<Rightarrow> Failure + SILInliner" where
  "cloneInst S Orig =
     bindF (remapValues S (getOperands Orig)) (\<lambda>Ops.
     bindF (if isTermInst Orig
            then bindF (remapBasicBlocks S (getSuccessors Orig)) (\<lambda>Succs.
                   if getKind Orig = ''CondBranchInst''
                   then Inr ((attrs Orig) \<lparr> trueBB := Succs ! 0, falseBB := Succs ! 1 \<rparr>)
                   else Inr ((attrs Orig) \<lparr> successors := Succs \<rparr>))
            else Inr (attrs Orig)) (\<lambda>A.
     bindF (if IKind S = MandatoryInline
            then (case CallSiteScope S of
                    None \<Rightarrow> Inl NullDereference
                  | Some CS \<Rightarrow> Inr (CS, S))
            else getOrCreateInlineScope S Orig) (\<lambda>(Scope, S1).
     case InlinerLoc S1 of
       None \<Rightarrow> Inl NullDereference
     | Some L \<Rightarrow>
         (let Cloned = ValueBase (NextValue S1) (getKind Orig) (getType Orig) Ops
                         (A \<lparr> parentFunction := fnName (fnDecl (BuilderF S1)),
                              instLoc := L, instDebugScope := Some Scope \<rparr>) in
          Inr (S1 \<lparr> BuilderF := builderInsertInst (BuilderF S1) (InsertionPoint S1) Cloned,
                    ValueMap := mapInsert (ValueMap S1) (ident Orig) Cloned,
                    NextValue := Suc (NextValue S1) \<rparr>)))))"

text \<open>
  \<^verbatim>\<open>SILInliner::visitDebugValueInst\<close> and \<^verbatim>\<open>SILInliner::visitDebugValueAddrInst\<close>: the
  mandatory inliner drops these instructions; every other instruction is cloned.
\<close>

definition visit :: "SILInliner \<Rightarrow> SILValue \<Rightarrow> Failure + SILInliner" where
  "visit S Inst =
     (if getKind Inst = ''DebugValueInst'' \<or> getKind Inst = ''DebugValueAddrInst''
      then (if IKind S = MandatoryInline then Inr S else cloneInst S Inst)
      else cloneInst S Inst)"

fun visitAll :: "SILInliner \<Rightarrow> SILValue list \<Rightarrow> Failure + SILInliner" where
  "visitAll S [] = Inr S"
| "visitAll S (I # Is) = bindF (visit S I) (\<lambda>S1. visitAll S1 Is)"

text \<open>
  A new block of the caller for the callee block \<open>Succ\<close>, with a new argument for each of
  its arguments; it is placed before \<open>InsertBeforeBB\<close> when there is one, and the builder
  moves to its end.
\<close>

fun newBBArgs :: "string \<Rightarrow> nat \<Rightarrow> SILValue list \<Rightarrow> SILValue list" where
  "newBBArgs Fn n [] = []"
| "newBBArgs Fn n (Arg # Args) =
     ValueBase n ''SILArgument'' (getType Arg) [] ((attrs Arg) \<lparr> parentFunction := Fn \<rparr>)
       # newBBArgs Fn (Suc n) Args"

fun mapInsertAll :: "(nat \<times> SILValue) list \<Rightarrow> SILValue list \<Rightarrow> SILValue list \<Rightarrow> (nat \<times> SILValue) list" where
  "mapInsertAll m (K # Ks) (V # Vs) = mapInsertAll (mapInsert m (ident K) V) Ks Vs"
| "mapInsertAll m Ks Vs = m"

definition mapNewBlock :: "SILInliner \<Rightarrow> SILBasicBlock \<Rightarrow> SILInliner" where
  "mapNewBlock S Succ =
     (let b = NextValue S;
          NewArgs = newBBArgs (fnName (fnDecl (BuilderF S))) (Suc b) (BBArgs Succ);
          MappedBB = \<lparr> bbIdent = b, BBArgs = NewArgs, Insts = [] \<rparr>;
          F1 = (BuilderF S) \<lparr> Blocks := Blocks (BuilderF S) @ [MappedBB] \<rparr>;
          F2 = (case InsertBeforeBB S of
                  None \<Rightarrow> F1
                | Some n \<Rightarrow> spliceBlock F1 (Some n) b) in
      S \<lparr> BuilderF := F2,
          BBMap := mapInsert (BBMap S) (bbIdent Succ) (Some b),
          ValueMap := mapInsertAll (ValueMap S) (BBArgs Succ) NewArgs,
          InsertionPoint := (b, None),
          NextValue := Suc b + length (BBArgs Succ) \<rparr>)"

text \<open>
  \<^verbatim>\<open>visitSILBasicBlock\<close>: clone the instructions of the block other than the terminator,
  then visit, depth first, each successor that is not yet in \<open>BBMap\<close>. Every nested call
  has mapped one more block of the callee, so the depth of the recursion is at most the
  number of blocks of the callee; the first argument bounds the depth, and
  \<open>inlineFunction\<close> passes that number.
\<close>

fun visitSILBasicBlock :: "nat \<Rightarrow> SILInliner \<Rightarrow> SILBasicBlock \<Rightarrow> Failure + SILInliner"
  and visitSuccessors :: "nat \<Rightarrow> SILInliner \<Rightarrow> nat list \<Rightarrow> Failure + SILInliner" where
  "visitSILBasicBlock 0 S BB = Inl OutOfFuel"
| "visitSILBasicBlock (Suc n) S BB =
     (case Insts BB of
        [] \<Rightarrow> Inl AssertionFailure
      | _ \<Rightarrow> bindF (visitAll S (butlast (Insts BB))) (\<lambda>S1.
               bindF (getTerminator BB) (\<lambda>T. visitSuccessors n S1 (getSuccessors T))))"
| "visitSuccessors n S [] = Inr S"
| "visitSuccessors n S (Succ # Rest) =
     (case map_of (BBMap S) Succ of
        Some Mapped \<Rightarrow> visitSuccessors n S Rest
      | None \<Rightarrow>
          (case findBlock (Blocks (Original S)) Succ of
             None \<Rightarrow> Inl NullDereference
           | Some SuccBB \<Rightarrow>
               bindF (visitSILBasicBlock n (mapNewBlock S SuccBB) SuccBB) (\<lambda>S1.
                 visitSuccessors n S1 Rest)))"

subsection \<open>\<^verbatim>\<open>SILInliner::inlineFunction\<close>\<close>

text \<open>
  The first part of \<^verbatim>\<open>inlineFunction\<close>, after the test for recursion: the assertions,
  the location and the scope of the inlined instructions, the mark on the callee, the
  maps, the insertion point after the apply, and the visit of the entry block of the
  callee. \<open>CallerBB\<close> is \<^verbatim>\<open>AI->getParent()\<close> and the insertion point is the instruction
  after \<open>AI\<close>. A callee without a body has no entry block to take.
\<close>

definition getInlinedLocation :: "SILLocation \<Rightarrow> SILLocation" where
  "getInlinedLocation L = L \<lparr> locKind := InlinedKind \<rparr>"

definition getMandatoryInlinedLocation :: "SILLocation \<Rightarrow> SILLocation" where
  "getMandatoryInlinedLocation L = L \<lparr> locKind := MandatoryInlinedKind \<rparr>"

definition cloneEntryBlock :: "SILInliner \<Rightarrow> SILValue \<Rightarrow> SILValue list \<Rightarrow> Failure + SILInliner" where
  "cloneEntryBlock S AI Args =
     (let Fn = BuilderF S; Callee = fnDecl (Original S) in
      if getFunction AI \<noteq> fnName (fnDecl Fn) then Inl AssertionFailure
      else if \<not> ((fnAbstractCC Callee \<noteq> CC_ObjCMethod \<and> fnAbstractCC Callee \<noteq> CC_C) \<or>
                  IKind S = PerformanceInline)
      then Inl AssertionFailure
      else case Blocks (Original S) of
        [] \<Rightarrow> Inl NullDereference
      | Entry # Others \<Rightarrow>
        (let L = (if IKind S = PerformanceInline then getInlinedLocation (getLoc AI)
                  else getMandatoryInlinedLocation (getLoc AI));
             AIScope = (case instDebugScope (attrs AI) of
                          Some Sc \<Rightarrow> Sc
                        | None \<Rightarrow> fnDebugScope Fn);
             CS = (if IKind S = MandatoryInline then AIScope
                   else DebugScope (getLoc AI) (fnName (fnDecl Fn)) (Some AIScope)
                          (InlinedCallSite AIScope)) in
         case getParent Fn AI of
           None \<Rightarrow> Inl NullDereference
         | Some CallerBB \<Rightarrow>
         (let S1 = S \<lparr> CalleeEntryBB := Some Entry, InlinerLoc := Some L,
                       CallSiteScope := Some CS,
                       InlinedFunctions := InlinedFunctions S @ [fnName Callee],
                       InsertBeforeBB := nextBlock (Blocks Fn) (bbIdent CallerBB) \<rparr> in
          if length (BBArgs Entry) \<noteq> length Args then Inl AssertionFailure
          else
          (let S2 = S1 \<lparr> ValueMap := mapInsertAll [] (BBArgs Entry) Args,
                          InstructionMap := [],
                          BBMap := mapInsert [] (bbIdent Entry) None,
                          InsertionPoint :=
                            (bbIdent CallerBB, nextIdent (Insts CallerBB) (ident AI)) \<rparr> in
           visitSILBasicBlock (length (Blocks (Original S))) S2 Entry))))"

text \<open>
  The second part, for a callee whose entry block does not end in a return: after the
  split, the terminators of the cloned blocks are made. A return of the callee becomes a
  branch to the return-to block with the remapped operand. The \<^verbatim>\<open>DenseMap\<close> is
  traversed in the order in which the blocks were mapped.
\<close>

definition createBranch :: "SILInliner \<Rightarrow> nat \<Rightarrow> SILValue list \<Rightarrow> Failure + SILInliner" where
  "createBranch S Dest Args =
     (case InlinerLoc S of
        None \<Rightarrow> Inl NullDereference
      | Some L \<Rightarrow>
          (let Br = ValueBase (NextValue S) ''BranchInst'' noResultType Args
                      ((mkAttrs (fnName (fnDecl (BuilderF S))) L) \<lparr> successors := [Dest] \<rparr>) in
           Inr (S \<lparr> BuilderF := builderInsertInst (BuilderF S) (InsertionPoint S) Br,
                    NextValue := Suc (NextValue S) \<rparr>)))"

fun fixTerminators ::
  "SILInliner \<Rightarrow> nat \<Rightarrow> nat \<Rightarrow> (nat \<times> nat option) list \<Rightarrow> Failure + SILInliner" where
  "fixTerminators S EntryIdent ReturnToBB [] = Inr S"
| "fixTerminators S EntryIdent ReturnToBB ((k, m) # Rest) =
     (if k = EntryIdent then fixTerminators S EntryIdent ReturnToBB Rest
      else case m of
        None \<Rightarrow> Inl NullDereference
      | Some Mapped \<Rightarrow>
          (case findBlock (Blocks (Original S)) k of
             None \<Rightarrow> Inl NullDereference
           | Some CalleeBB \<Rightarrow>
               (let S1 = S \<lparr> InsertionPoint := (Mapped, None) \<rparr> in
                bindF (getTerminator CalleeBB) (\<lambda>T.
                bindF (case dyn_cast ''ReturnInst'' T of
                         Some RI \<Rightarrow>
                           bindF (getOperand RI 0) (\<lambda>r. bindF (remapValue S1 r) (\<lambda>V.
                             createBranch S1 ReturnToBB [V]))
                       | None \<Rightarrow>
                           if getKind T = ''AutoreleaseReturnInst'' then Inl AssertionFailure
                           else visit S1 T) (\<lambda>S2.
                fixTerminators S2 EntryIdent ReturnToBB Rest)))))"

definition replaceAllUsesIn :: "SILInliner \<Rightarrow> nat \<Rightarrow> SILValue \<Rightarrow> SILInliner" where
  "replaceAllUsesIn S Old New =
     S \<lparr> BuilderF := replaceAllUsesWith (BuilderF S) Old New,
         ValueMap := map (\<lambda>(k, W). (k, replaceUses Old New W)) (ValueMap S) \<rparr>"

definition eraseInst :: "SILInliner \<Rightarrow> nat \<Rightarrow> SILInliner" where
  "eraseInst S i = S \<lparr> BuilderF := eraseFromParent (BuilderF S) i \<rparr>"

text \<open>
  \<^verbatim>\<open>bool SILInliner::inlineFunction(ApplyInst *AI, ArrayRef<SILValue> Args)\<close>. The result
  is the returned boolean and the state after the call.
\<close>

definition inlineFunction ::
  "SILInliner \<Rightarrow> SILValue \<Rightarrow> SILValue list \<Rightarrow> Failure + (bool \<times> SILInliner)" where
  "inlineFunction S AI Args =
     (let S0 = S \<lparr> CalleeFunction := Some (fnDecl (Original S)) \<rparr> in
      if getFunction AI = fnName (fnDecl (Original S)) then Inr (False, S0)
      else
        bindF (cloneEntryBlock S0 AI Args) (\<lambda>S1.
        case CalleeEntryBB S1 of
          None \<Rightarrow> Inl NullDereference
        | Some Entry \<Rightarrow>
            bindF (getTerminator Entry) (\<lambda>T.
            case dyn_cast ''ReturnInst'' T of
              Some RI \<Rightarrow>
                bindF (getOperand RI 0) (\<lambda>r. bindF (remapValue S1 r) (\<lambda>V.
                  Inr (True, eraseInst (replaceAllUsesIn S1 (ident AI) V) (ident AI))))
            | None \<Rightarrow>
                (case getParent (BuilderF S0) AI of
                   None \<Rightarrow> Inl NullDereference
                 | Some CallerBB \<Rightarrow>
                (let InsertPoint = nextIdent (Insts CallerBB) (ident AI);
                     ReturnToBB = NextValue S1;
                     F1 = splitBasicBlock (BuilderF S1) (bbIdent CallerBB) InsertPoint ReturnToBB;
                     F2 = spliceBlock F1 (InsertBeforeBB S1) ReturnToBB;
                     RetArg = ValueBase (Suc ReturnToBB) ''SILArgument'' (getType AI) []
                                (mkAttrs (fnName (fnDecl F2)) (getLoc AI));
                     F3 = addBBArg F2 ReturnToBB RetArg;
                     S2 = S1 \<lparr> BuilderF := F3, NextValue := Suc (Suc ReturnToBB) \<rparr>;
                     S3 = eraseInst (replaceAllUsesIn S2 (ident AI) RetArg) (ident AI);
                     S4 = S3 \<lparr> InsertionPoint := (bbIdent CallerBB, None) \<rparr> in
                 bindF (visit S4 T) (\<lambda>S5.
                 bindF (fixTerminators S5 (bbIdent Entry) ReturnToBB (BBMap S5)) (\<lambda>S6.
                   Inr (True, S6))))))))"

subsection \<open>Callee blocks that can be cloned\<close>



section \<open>Example values\<close>

text \<open>Concrete SIL used to evaluate the definitions.\<close>

definition exType :: SILType where
  "exType = (plainType ''$Builtin.Int64'') \<lparr> integerWidth := Some 64 \<rparr>"

definition exDecl :: "string \<Rightarrow> SILFunctionDecl" where
  "exDecl n = noFunction \<lparr> fnName := n, fnResultType := exType \<rparr>"

definition exLoc :: SILLocation where
  "exLoc = \<lparr> locKind = RegularKind, locPos = 0 \<rparr>"

definition exAttrs :: "string \<Rightarrow> InstAttrs" where
  "exAttrs parent = mkAttrs parent exLoc"

definition exScope :: "string \<Rightarrow> SILDebugScope" where
  "exScope n = DebugScope exLoc n None None"

text \<open>
  A function \<open>f\<close> that loads a value and then calls itself:
  \<^verbatim>\<open>%1 = load %0; %2 = function_ref @f; %3 = apply %2(%1); return %3\<close>.
\<close>

definition exArg0 :: SILValue where
  "exArg0 = ValueBase 0 ''SILArgument'' exType [] (exAttrs ''f'')"

definition exLoad :: SILValue where
  "exLoad = ValueBase 1 ''LoadInst'' exType [exArg0] (exAttrs ''f'')"

definition exSelfRef :: SILValue where
  "exSelfRef = ValueBase 2 ''FunctionRefInst'' exType []
                 ((exAttrs ''f'') \<lparr> referencedFunction := exDecl ''f'' \<rparr>)"

definition exSelfApply :: SILValue where
  "exSelfApply = ValueBase 3 ''ApplyInst'' exType [exSelfRef, exLoad] (exAttrs ''f'')"

definition exReturn :: SILValue where
  "exReturn = ValueBase 4 ''ReturnInst'' exType [exSelfApply] (exAttrs ''f'')"

definition exRecursiveFn :: SILFunction where
  "exRecursiveFn =
     \<lparr> fnDecl = exDecl ''f'',
       Blocks = [\<lparr> bbIdent = 0, BBArgs = [exArg0],
                   Insts = [exLoad, exSelfRef, exSelfApply, exReturn] \<rparr>],
       fnDebugScope = exScope ''f'' \<rparr>"

definition exTransparentFn :: SILFunction where
  "exTransparentFn = exRecursiveFn \<lparr> fnDecl := (exDecl ''f'') \<lparr> fnIsTransparent := True \<rparr> \<rparr>"

text \<open>A combiner that has not yet inserted or erased anything.\<close>

definition exCombiner :: SILCombiner where
  "exCombiner = \<lparr> NextIdent = 100, Inserted = [], Erased = [] \<rparr>"

text \<open>
  \<^verbatim>\<open>%12 = unchecked_enum_data %11, #Optional.Some\<close>, where \<^verbatim>\<open>%11\<close> is an
  \<^verbatim>\<open>unchecked_ref_bit_cast\<close> to an optional of a trivial type.
\<close>

definition exOptionalDecl :: "EnumElementDecl list" where
  "exOptionalDecl = [\<lparr> elementName = ''None'', hasArgumentType = False \<rparr>,
                     \<lparr> elementName = ''Some'', hasArgumentType = True \<rparr>]"

definition exTrivialEnumType :: SILType where
  "exTrivialEnumType =
     (plainType ''$Optional<Builtin.Int64>'') \<lparr> getEnumOrBoundGenericEnum := Some exOptionalDecl \<rparr>"

definition exCast :: SILValue where
  "exCast = ValueBase 11 ''UncheckedRefBitCastInst'' exTrivialEnumType [exArg0] (exAttrs ''f'')"

definition exUEDI :: SILValue where
  "exUEDI = ValueBase 12 ''UncheckedEnumDataInst'' exType [exCast]
              ((exAttrs ''f'') \<lparr> enumElement := \<lparr> elementName = ''Some'', hasArgumentType = True \<rparr> \<rparr>)"

text \<open>
  Reference counting: a class reference \<^verbatim>\<open>%20\<close>, a reference \<^verbatim>\<open>%23\<close> to a thin function
  (a type that is trivial and has reference semantics), and releases and retains of them.
\<close>

definition exClassType :: SILType where
  "exClassType = (plainType ''$C'') \<lparr> isTrivial := False, hasReferenceSemantics := True \<rparr>"

definition exThinFunctionType :: SILType where
  "exThinFunctionType = (plainType ''$@thin () -> ()'') \<lparr> hasReferenceSemantics := True \<rparr>"

definition exObject :: SILValue where
  "exObject = ValueBase 20 ''SILArgument'' exClassType [] (exAttrs ''f'')"

definition exReleaseObject :: SILValue where
  "exReleaseObject = ValueBase 21 ''ReleaseValueInst'' noResultType [exObject] (exAttrs ''f'')"

definition exRetainObject :: SILValue where
  "exRetainObject = ValueBase 22 ''RetainValueInst'' noResultType [exObject] (exAttrs ''f'')"

definition exThinRef :: SILValue where
  "exThinRef = ValueBase 23 ''FunctionRefInst'' exThinFunctionType []
                 ((exAttrs ''f'') \<lparr> referencedFunction := exDecl ''g'' \<rparr>)"

definition exReleaseThin :: SILValue where
  "exReleaseThin = ValueBase 24 ''ReleaseValueInst'' noResultType [exThinRef] (exAttrs ''f'')"

definition exReleaseInt :: SILValue where
  "exReleaseInt = ValueBase 25 ''ReleaseValueInst'' noResultType [exArg0] (exAttrs ''f'')"

definition exRetainInt :: SILValue where
  "exRetainInt = ValueBase 26 ''RetainValueInst'' noResultType [exArg0] (exAttrs ''f'')"

text \<open>
  Enum instructions as operands: \<^verbatim>\<open>%27 = enum #Optional.None\<close> has no payload,
  \<^verbatim>\<open>%28 = enum #Optional.Some, %0\<close> has a trivial payload and
  \<^verbatim>\<open>%29 = enum #Optional.Some, %20\<close> has the class reference as its payload.
\<close>

definition exOptionalClassType :: SILType where
  "exOptionalClassType =
     (plainType ''$Optional<C>'') \<lparr> isTrivial := False,
                                   getEnumOrBoundGenericEnum := Some exOptionalDecl \<rparr>"

definition exEnum :: "nat \<Rightarrow> string \<Rightarrow> SILValue list \<Rightarrow> SILValue" where
  "exEnum i Case Payload =
     ValueBase i ''EnumInst'' exOptionalClassType Payload
       ((exAttrs ''f'') \<lparr> enumElement := \<lparr> elementName = Case, hasArgumentType = (Payload \<noteq> []) \<rparr> \<rparr>)"

definition exEnumNone :: SILValue where
  "exEnumNone = exEnum 27 ''None'' []"

definition exEnumSomeInt :: SILValue where
  "exEnumSomeInt = exEnum 28 ''Some'' [exArg0]"

definition exEnumSomeObject :: SILValue where
  "exEnumSomeObject = exEnum 29 ''Some'' [exObject]"

definition exRelease :: "nat \<Rightarrow> SILValue \<Rightarrow> SILValue" where
  "exRelease i V = ValueBase i ''ReleaseValueInst'' noResultType [V] (exAttrs ''f'')"

definition exRetain :: "nat \<Rightarrow> SILValue \<Rightarrow> SILValue" where
  "exRetain i V = ValueBase i ''RetainValueInst'' noResultType [V] (exAttrs ''f'')"

definition exRCBlock :: SILBasicBlock where
  "exRCBlock = \<lparr> bbIdent = 0, BBArgs = [exArg0, exObject],
                 Insts = [exReleaseObject, exRetainObject, exReleaseInt, exRetainInt] \<rparr>"

text \<open>
  Integer literals and builtins: \<^verbatim>\<open>%32 = apply xor(%30, 1)\<close>, a conditional branch on it,
  and comparisons \<^verbatim>\<open>icmp_eq(5, 5)\<close> and \<^verbatim>\<open>icmp_ne(0, 5)\<close>. The example analysis of
  zero values knows the integer literals.
\<close>

definition exInt1Type :: SILType where
  "exInt1Type = (plainType ''$Builtin.Int1'') \<lparr> integerWidth := Some 1 \<rparr>"

definition exIntLit :: "nat \<Rightarrow> SILType \<Rightarrow> nat \<Rightarrow> nat \<Rightarrow> SILValue" where
  "exIntLit i T w v =
     ValueBase i ''IntegerLiteralInst'' T [] ((exAttrs ''f'') \<lparr> integerValue := mkAPInt w v \<rparr>)"

definition exBuiltin :: "nat \<Rightarrow> BuiltinValueKind \<Rightarrow> SILValue" where
  "exBuiltin i K = ValueBase i ''BuiltinFunctionRefInst'' exType [] ((exAttrs ''f'') \<lparr> builtinID := K \<rparr>)"

definition exFlag :: SILValue where
  "exFlag = ValueBase 30 ''SILArgument'' exInt1Type [] (exAttrs ''f'')"

definition exXor :: SILValue where
  "exXor = ValueBase 32 ''ApplyInst'' exInt1Type
             [exBuiltin 31 ''Xor'', exFlag, exIntLit 33 exInt1Type 1 1] (exAttrs ''f'')"

definition exCondBr :: SILValue where
  "exCondBr = ValueBase 34 ''CondBranchInst'' noResultType [exXor, exArg0, exObject, exFlag]
                ((exAttrs ''f'') \<lparr> trueBB := 1, falseBB := 2, numTrueArgs := 1 \<rparr>)"

definition exFive :: SILValue where
  "exFive = exIntLit 40 exType 64 5"

definition exZero :: SILValue where
  "exZero = exIntLit 41 exType 64 0"

definition exCmpEqSame :: SILValue where
  "exCmpEqSame = ValueBase 43 ''ApplyInst'' exInt1Type [exBuiltin 42 ''ICMP_EQ'', exFive, exFive]
                   (exAttrs ''f'')"

definition exCmpEqUnknown :: SILValue where
  "exCmpEqUnknown = ValueBase 47 ''ApplyInst'' exInt1Type [exBuiltin 46 ''ICMP_EQ'', exArg0, exFive]
                      (exAttrs ''f'')"

definition exCmpNe :: SILValue where
  "exCmpNe = ValueBase 45 ''ApplyInst'' exInt1Type [exBuiltin 44 ''ICMP_NE'', exZero, exFive]
               (exAttrs ''f'')"

definition exIsZeroValue :: "SILValue \<Rightarrow> IsZeroKind" where
  "exIsZeroValue V =
     (if getKind V = ''IntegerLiteralInst''
      then (if VAL (integerValue (attrs V)) = 0 then Zero else NotZero)
      else Unknown)"

definition exRules :: ApplyRules where
  "exRules = \<lparr> optimizeApplyOfPartialApply = (\<lambda>C AI PAI. Inr (None, C)),
               optimizeBuiltinCanBeObjCClass = (\<lambda>C AI. Inr (None, C)),
               optimizeApplyOfConvertFunctionInst = (\<lambda>C AI CFI. Inr (None, C)),
               eraseDeadApply = (\<lambda>C AI FRI. None),
               laterApplyRules = (\<lambda>C AI. Inr (None, C)),
               isZeroValue = exIsZeroValue,
               codeUnitCount = (\<lambda>E V. length V) \<rparr>"

text \<open>
  String literals: \<^verbatim>\<open>%54 = apply %50("foo", 3, 1, %49)\<close> and
  \<^verbatim>\<open>%59 = apply %55("bar", 3, 1, %49)\<close> call a transparent function with the semantics
  \<^verbatim>\<open>string.makeUTF8\<close>, and \<^verbatim>\<open>%61 = apply %60(%54, %59)\<close> calls a function with the
  semantics \<^verbatim>\<open>string.concat\<close>. In \<^verbatim>\<open>%71 = apply %70(%54, %69)\<close> the right argument
  \<^verbatim>\<open>%69\<close> is a call of a function with another semantics attribute that takes the same
  arguments.
\<close>

definition exStringType :: SILType where
  "exStringType = (plainType ''$String'') \<lparr> isTrivial := False \<rparr>"

definition exStringFn :: "string \<Rightarrow> string \<Rightarrow> SILFunctionDecl" where
  "exStringFn n sem = \<lparr> fnName = n, fnIsTransparent = True, fnEffectsInfo = ReadNone,
                         fnSemanticsAttr = sem, fnAbstractCC = CC_Freestanding,
                         fnResultType = exStringType \<rparr>"

definition exFnRef :: "nat \<Rightarrow> SILFunctionDecl \<Rightarrow> SILValue" where
  "exFnRef i D = ValueBase i ''FunctionRefInst'' (plainType ''$@thin function'') []
                   ((exAttrs ''f'') \<lparr> referencedFunction := D \<rparr>)"

definition exStrLit :: "nat \<Rightarrow> string \<Rightarrow> Encoding \<Rightarrow> SILValue" where
  "exStrLit i v e = ValueBase i ''StringLiteralInst'' RawPointerType []
                      ((exAttrs ''f'') \<lparr> stringValue := v, stringEncoding := e \<rparr>)"

definition exStringMetatype :: SILValue where
  "exStringMetatype =
     ValueBase 49 ''MetatypeInst''
       ((plainType ''$@thin String.Type'') \<lparr> metatypeRepresentation := Some Thin \<rparr>) []
       (exAttrs ''f'')"

definition exMakeCall :: "nat \<Rightarrow> string \<Rightarrow> string \<Rightarrow> SILValue" where
  "exMakeCall i sem v =
     ValueBase (i + 4) ''ApplyInst'' exStringType
       [exFnRef i (exStringFn ''make'' sem), exStrLit (i + 1) v UTF8,
        exIntLit (i + 2) exType 64 (length v), exIntLit (i + 3) exInt1Type 1 1,
        exStringMetatype]
       ((exAttrs ''f'') \<lparr> applyIsTransparent := True \<rparr>)"

definition exFoo :: SILValue where
  "exFoo = exMakeCall 50 ''string.makeUTF8'' ''foo''"

definition exBar :: SILValue where
  "exBar = exMakeCall 55 ''string.makeUTF8'' ''bar''"

definition exOtherBar :: SILValue where
  "exOtherBar = exMakeCall 65 ''string.other'' ''bar''"

definition exConcatCall :: SILValue where
  "exConcatCall =
     ValueBase 61 ''ApplyInst'' exStringType
       [exFnRef 60 (exStringFn ''concat'' ''string.concat''), exFoo, exBar] (exAttrs ''f'')"

definition exOneSidedConcatCall :: SILValue where
  "exOneSidedConcatCall =
     ValueBase 71 ''ApplyInst'' exStringType
       [exFnRef 70 (exStringFn ''concat'' ''string.concat''), exFoo, exOtherBar] (exAttrs ''f'')"

text \<open>
  The mirror image: in \<^verbatim>\<open>%81 = apply %80(%79, %59)\<close> the left argument
  \<^verbatim>\<open>%79 = apply %75("foo", 3, 1, %49)\<close> is a call, not transparent, of the function
  \<open>other\<close> with the semantics \<^verbatim>\<open>string.other\<close>, and the right argument is the maker
  call \<^verbatim>\<open>%59\<close>.
\<close>

definition exOtherFoo :: SILValue where
  "exOtherFoo =
     ValueBase 79 ''ApplyInst'' exStringType
       [exFnRef 75 (exStringFn ''other'' ''string.other''), exStrLit 76 ''foo'' UTF8,
        exIntLit 77 exType 64 3, exIntLit 78 exInt1Type 1 1, exStringMetatype]
       (exAttrs ''f'')"

definition exMirrorConcatCall :: SILValue where
  "exMirrorConcatCall =
     ValueBase 81 ''ApplyInst'' exStringType
       [exFnRef 80 (exStringFn ''concat'' ''string.concat''), exOtherFoo, exBar] (exAttrs ''f'')"

text \<open>
  Inlining: the callee \<^verbatim>\<open>%1 = struct (%0); debug_value %0; return %1\<close> with the entry
  argument \<^verbatim>\<open>%0\<close>, and the caller
  \<^verbatim>\<open>%11 = function_ref @callee; %12 = apply %11(%10); %13 = tuple (%12, %10); return %13\<close>.
\<close>

definition calleeArg :: SILValue where
  "calleeArg = ValueBase 0 ''SILArgument'' exType [] (exAttrs ''callee'')"

definition calleeStruct :: SILValue where
  "calleeStruct = ValueBase 1 ''StructInst'' exType [calleeArg] (exAttrs ''callee'')"

definition calleeDebug :: SILValue where
  "calleeDebug = ValueBase 2 ''DebugValueInst'' noResultType [calleeArg] (exAttrs ''callee'')"

definition calleeRet :: SILValue where
  "calleeRet = ValueBase 3 ''ReturnInst'' noResultType [calleeStruct] (exAttrs ''callee'')"

definition exCallee :: SILFunction where
  "exCallee =
     \<lparr> fnDecl = exDecl ''callee'',
       Blocks = [\<lparr> bbIdent = 0, BBArgs = [calleeArg],
                   Insts = [calleeStruct, calleeDebug, calleeRet] \<rparr>],
       fnDebugScope = exScope ''callee'' \<rparr>"

definition exForeignCallee :: SILFunction where
  "exForeignCallee = exCallee \<lparr> fnDecl := (exDecl ''callee'') \<lparr> fnAbstractCC := CC_C \<rparr> \<rparr>"

definition callerArg :: SILValue where
  "callerArg = ValueBase 10 ''SILArgument'' exType [] (exAttrs ''caller'')"

definition callerRef :: SILValue where
  "callerRef = ValueBase 11 ''FunctionRefInst'' exType []
                 ((exAttrs ''caller'') \<lparr> referencedFunction := exDecl ''callee'' \<rparr>)"

definition callerApply :: SILValue where
  "callerApply = ValueBase 12 ''ApplyInst'' exType [callerRef, callerArg] (exAttrs ''caller'')"

definition callerTuple :: SILValue where
  "callerTuple = ValueBase 13 ''TupleInst'' exType [callerApply, callerArg] (exAttrs ''caller'')"

definition callerRet :: SILValue where
  "callerRet = ValueBase 14 ''ReturnInst'' noResultType [callerTuple] (exAttrs ''caller'')"

definition exCaller :: SILFunction where
  "exCaller =
     \<lparr> fnDecl = exDecl ''caller'',
       Blocks = [\<lparr> bbIdent = 100, BBArgs = [callerArg],
                   Insts = [callerRef, callerApply, callerTuple, callerRet] \<rparr>],
       fnDebugScope = exScope ''caller'' \<rparr>"

definition exInliner :: "InlineKind \<Rightarrow> SILFunction \<Rightarrow> SILFunction \<Rightarrow> SILInliner" where
  "exInliner Kind Callee Caller =
     \<lparr> IKind = Kind, Original = Callee, BuilderF = Caller, InsertionPoint = (100, None),
       CalleeFunction = None, CalleeEntryBB = None, InsertBeforeBB = None, InlinerLoc = None,
       CallSiteScope = None, ValueMap = [], InstructionMap = [], BBMap = [],
       InlinedScopeCache = [], InlinedFunctions = [], NextValue = 1000 \<rparr>"

section \<open>Verified properties\<close>

subsection \<open>The cost loop\<close>

lemma getFunctionCost_BB_append:
  "getFunctionCost_BB C K (xs @ ys) c =
     (case getFunctionCost_BB C K xs c of
        Inl e \<Rightarrow> Inl e
      | Inr (Returned r) \<Rightarrow> Inr (Returned r)
      | Inr (FellThrough c') \<Rightarrow> getFunctionCost_BB C K ys c')"
  by (induction xs arbitrary: c) (auto simp: Let_def split: sum.splits LoopExit.splits)

lemma getFunctionCost_Blocks_flat:
  "getFunctionCost_Blocks C K BBs c =
     (case getFunctionCost_BB C K (concat (map Insts BBs)) c of
        Inl e \<Rightarrow> Inl e
      | Inr x \<Rightarrow> Inr (exitValue x))"
  by (induction BBs arbitrary: c)
     (auto simp: getFunctionCost_BB_append split: sum.splits LoopExit.splits)

lemma word32_le_succ: "(c :: 32 word) \<le> c + 1 \<or> c = UINT_MAX"
  unfolding UINT_MAX_def using inc_less_eq_self_iff_eq by fastforce

lemma word32_le_UINT_MAX: "(c :: 32 word) \<le> UINT_MAX"
  by (simp add: UINT_MAX_def)

lemma getFunctionCost_BB_shift:
  assumes "c \<le> K"
    and "getFunctionCost_BB C K Q c = Inr e0"
    and "(if c + 1 > K then Inr (Returned (c + 1)) else getFunctionCost_BB C K Q (c + 1)) = Inr e1"
  shows "exitValue e0 \<le> exitValue e1 \<or> exitValue e0 = UINT_MAX"
  using assms
proof (induction Q arbitrary: c e0 e1)
  case Nil
  then show ?case
    using word32_le_succ [of c] by (auto split: if_splits)
next
  case (Cons q Q)
  obtain ic where ic: "instructionInlineCost q C = Inr ic"
    using Cons.prems(2) by (cases "instructionInlineCost q C") auto
  show ?case
  proof (cases ic)
    case Free
    with ic Cons.prems have a: "getFunctionCost_BB C K Q c = Inr e0"
      by (auto simp: Let_def split: if_splits)
    from Free ic Cons.prems
    have b: "(if c + 1 > K then Inr (Returned (c + 1)) else getFunctionCost_BB C K Q (c + 1)) = Inr e1"
      by (auto simp: Let_def split: if_splits)
    from Cons.IH [OF Cons.prems(1) a b] show ?thesis .
  next
    case Expensive
    show ?thesis
    proof (cases "c + 1 > K")
      case True
      with Expensive ic Cons.prems show ?thesis by (auto simp: Let_def)
    next
      case False
      then have le: "c + 1 \<le> K" by simp
      from False Expensive ic Cons.prems have a: "getFunctionCost_BB C K Q (c + 1) = Inr e0"
        by (auto simp: Let_def)
      from False Expensive ic Cons.prems
      have b: "(if c + 1 + 1 > K then Inr (Returned (c + 1 + 1))
                else getFunctionCost_BB C K Q (c + 1 + 1)) = Inr e1"
        by (auto simp: Let_def)
      from Cons.IH [OF le a b] show ?thesis .
    qed
  next
    case CannotBeInlined
    with ic Cons.prems show ?thesis by (auto simp: Let_def)
  qed
qed

lemma getFunctionCost_BB_drop_head:
  assumes "c \<le> K"
    and "getFunctionCost_BB C K (x # Q) c = Inr e"
    and "getFunctionCost_BB C K Q c = Inr e'"
  shows "exitValue e' \<le> exitValue e \<or> exitValue e' = UINT_MAX"
proof -
  obtain ic where ic: "instructionInlineCost x C = Inr ic"
    using assms(2) by (cases "instructionInlineCost x C") auto
  show ?thesis
  proof (cases ic)
    case Free
    with ic assms show ?thesis by (auto simp: Let_def split: if_splits)
  next
    case Expensive
    with ic assms(2)
    have "(if c + 1 > K then Inr (Returned (c + 1)) else getFunctionCost_BB C K Q (c + 1)) = Inr e"
      by (auto simp: Let_def)
    from getFunctionCost_BB_shift [OF assms(1) assms(3) this] show ?thesis .
  next
    case CannotBeInlined
    with ic assms(2) have "exitValue e = UINT_MAX" by auto
    then show ?thesis using word32_le_UINT_MAX [of "exitValue e'"] by simp
  qed
qed

lemma getFunctionCost_BB_remove:
  assumes "c \<le> K"
    and "getFunctionCost_BB C K (P @ x # Q) c = Inr e"
    and "getFunctionCost_BB C K (P @ Q) c = Inr e'"
  shows "exitValue e' \<le> exitValue e \<or> exitValue e' = UINT_MAX"
  using assms
proof (induction P arbitrary: c)
  case Nil
  then show ?case using getFunctionCost_BB_drop_head by simp
next
  case (Cons p P)
  obtain ic where ic: "instructionInlineCost p C = Inr ic"
    using Cons.prems(2) by (cases "instructionInlineCost p C") auto
  show ?case
  proof (cases "ic = CannotBeInlined")
    case True
    with ic Cons.prems show ?thesis by auto
  next
    case False
    show ?thesis
    proof (cases "c + unsignedOf ic > K")
      case True
      with False ic Cons.prems show ?thesis by (auto simp: Let_def)
    next
      case gt: False
      then have le: "c + unsignedOf ic \<le> K" by simp
      from gt False ic Cons.prems
      have a: "getFunctionCost_BB C K (P @ x # Q) (c + unsignedOf ic) = Inr e"
        and b: "getFunctionCost_BB C K (P @ Q) (c + unsignedOf ic) = Inr e'"
        by (auto simp: Let_def)
      from Cons.IH [OF le a b] show ?thesis .
    qed
  qed
qed


lemma unat32_succ: "unat (c :: 32 word) < unat (K :: 32 word) \<Longrightarrow> unat (c + 1) = unat c + 1"
proof -
  assume lt: "unat c < unat K"
  have "unat K < 2 ^ 32" using unsigned_less [of K, where ?'a = nat] by simp
  with lt have "unat c + 1 < 2 ^ 32" by simp
  then show ?thesis by (simp add: unat_word_ariths)
qed

lemma getFunctionCost_BB_reaches:
  assumes "list_all (hasCost C) pre"
    and "unat c + length (filter (isExpensive C) pre) \<le> unat K"
    and "instructionInlineCost AI C = Inr CannotBeInlined"
  shows "getFunctionCost_BB C K (pre @ AI # post) c = Inr (Returned UINT_MAX)"
  using assms
proof (induction pre arbitrary: c)
  case Nil
  then show ?case by simp
next
  case (Cons p pre)
  obtain ic where ic: "instructionInlineCost p C = Inr ic"
    using Cons.prems(1) by (auto simp: hasCost_def split: sum.splits)
  show ?case
  proof (cases ic)
    case Free
    have cK: "\<not> K < c" using Cons.prems(2) by (simp add: word_less_nat_alt)
    have nexp: "\<not> isExpensive C p" using Free ic by (simp add: isExpensive_def)
    have "unat c + length (filter (isExpensive C) pre) \<le> unat K"
      using Cons.prems(2) nexp by simp
    with Cons.IH [of c] Cons.prems have "getFunctionCost_BB C K (pre @ AI # post) c = Inr (Returned UINT_MAX)"
      by simp
    with Free ic cK show ?thesis by simp
  next
    case Expensive
    have exp: "isExpensive C p" using Expensive ic by (simp add: isExpensive_def)
    have lt: "unat c < unat K" using Cons.prems(2) exp by simp
    have u: "unat (c + 1) = unat c + 1" using unat32_succ [OF lt] .
    have cK: "\<not> K < c + 1" using lt u by (simp add: word_less_nat_alt)
    have "unat (c + 1) + length (filter (isExpensive C) pre) \<le> unat K"
      using Cons.prems(2) exp u by simp
    with Cons.IH [of "c + 1"] Cons.prems
    have "getFunctionCost_BB C K (pre @ AI # post) (c + 1) = Inr (Returned UINT_MAX)"
      by simp
    with Expensive ic cK show ?thesis by simp
  next
    case CannotBeInlined
    with ic show ?thesis by simp
  qed
qed

lemma recursion_CannotBeInlined:
  assumes "isApplyOfFunctionRefTo Fn AI" and "getFunction AI = Fn"
  shows "instructionInlineCost AI C = Inr CannotBeInlined"
proof -
  from assms(1) have k: "getKind AI = ''ApplyInst''"
    by (simp add: isApplyOfFunctionRefTo_def)
  from assms(1) obtain Callee Args where ops: "getOperands AI = Callee # Args"
    and ck: "getKind Callee = ''FunctionRefInst''"
    and fn: "fnName (getReferencedFunction Callee) = Fn"
    by (auto simp: isApplyOfFunctionRefTo_def split: list.splits)
  show ?thesis
    using k ops ck fn assms(2)
    by (simp add: instructionInlineCost_def getCallee_def getOperand_def dyn_cast_def bindF_def)
qed

text \<open>
  Claim C3, as amended. A transparent function has cost 0, whatever its body. A function
  that is not transparent and contains an apply of a \<^verbatim>\<open>function_ref\<close> to itself has the
  sentinel cost \<open>UINT_MAX\<close> provided the scan reaches that apply: the instructions before it
  all have a cost and at most \<open>Cutoff\<close> of them are expensive. (As stated, without the
  proviso, the claim fails: the scan returns the running cost as soon as it exceeds
  \<open>Cutoff\<close>.)
\<close>

theorem getFunctionCost_transparent_or_recursive:
  "(fnIsTransparent (fnDecl F) \<longrightarrow> getFunctionCost F Caller Cutoff = Inr 0) \<and>
   (\<not> fnIsTransparent (fnDecl F) \<and> allInsts F = pre @ AI # post \<and>
    isApplyOfFunctionRefTo (fnName (fnDecl F)) AI \<and> getFunction AI = fnName (fnDecl F) \<and>
    list_all (hasCost Caller) pre \<and>
    length (filter (isExpensive Caller) pre) \<le> unat Cutoff
    \<longrightarrow> getFunctionCost F Caller Cutoff = Inr UINT_MAX)"
proof (intro conjI impI)
  assume "fnIsTransparent (fnDecl F)"
  then show "getFunctionCost F Caller Cutoff = Inr 0"
    by (simp add: getFunctionCost_def)
next
  assume h: "\<not> fnIsTransparent (fnDecl F) \<and> allInsts F = pre @ AI # post \<and>
    isApplyOfFunctionRefTo (fnName (fnDecl F)) AI \<and> getFunction AI = fnName (fnDecl F) \<and>
    list_all (hasCost Caller) pre \<and>
    length (filter (isExpensive Caller) pre) \<le> unat Cutoff"
  then have rec: "instructionInlineCost AI Caller = Inr CannotBeInlined"
    using recursion_CannotBeInlined by blast
  from h have "unat (0 :: 32 word) + length (filter (isExpensive Caller) pre) \<le> unat Cutoff"
    by simp
  with h rec have "getFunctionCost_BB Caller Cutoff (pre @ AI # post) 0 = Inr (Returned UINT_MAX)"
    using getFunctionCost_BB_reaches by blast
  with h show "getFunctionCost F Caller Cutoff = Inr UINT_MAX"
    by (simp add: getFunctionCost_def getFunctionCost_Blocks_flat allInsts_def)
qed

lemmas ex_defs = plainType_def noResultType_def noFunction_def mkAttrs_def
  exType_def exDecl_def exLoc_def exAttrs_def exScope_def exArg0_def exLoad_def
  exSelfRef_def exSelfApply_def exReturn_def exRecursiveFn_def exTransparentFn_def
  RawPointerType_def exCombiner_def exOptionalDecl_def exTrivialEnumType_def exCast_def
  exUEDI_def exClassType_def exThinFunctionType_def exObject_def exReleaseObject_def
  exRetainObject_def exThinRef_def exReleaseThin_def exReleaseInt_def exRetainInt_def
  exRCBlock_def exInt1Type_def exIntLit_def exBuiltin_def exFlag_def exXor_def exCondBr_def
  exFive_def exZero_def exCmpEqSame_def exCmpEqUnknown_def exCmpNe_def
  exStringType_def exStringFn_def exFnRef_def exStrLit_def exStringMetatype_def exMakeCall_def
  exFoo_def exBar_def exOtherBar_def exConcatCall_def exOneSidedConcatCall_def
  calleeArg_def calleeStruct_def calleeDebug_def calleeRet_def exCallee_def exForeignCallee_def
  callerArg_def callerRef_def callerApply_def callerTuple_def callerRet_def exCaller_def
  exInliner_def exIsZeroValue_def exRules_def

lemma ex_costs:
  "instructionInlineCost exLoad C = Inr Expensive"
  "instructionInlineCost exSelfRef C = Inr Free"
  "instructionInlineCost exSelfApply C = Inr CannotBeInlined"
  "instructionInlineCost exReturn C = Inr Free"
  by (simp_all add: ex_defs instructionInlineCost_def getCallee_def getOperand_def dyn_cast_def
        bindF_def getReferencedFunction_def getFunction_def)

theorem getFunctionCost_transparent_or_recursive_witness:
  "getFunctionCost exTransparentFn None 0 = Inr 0 \<and>
   getFunctionCost exRecursiveFn None 1 = Inr UINT_MAX"
proof -
  have t: "fnIsTransparent (fnDecl exTransparentFn)"
    by (simp add: ex_defs)
  have r: "\<not> fnIsTransparent (fnDecl exRecursiveFn) \<and>
      allInsts exRecursiveFn = [exLoad, exSelfRef] @ exSelfApply # [exReturn] \<and>
      isApplyOfFunctionRefTo (fnName (fnDecl exRecursiveFn)) exSelfApply \<and>
      getFunction exSelfApply = fnName (fnDecl exRecursiveFn) \<and>
      list_all (hasCost None) [exLoad, exSelfRef] \<and>
      length (filter (isExpensive None) [exLoad, exSelfRef]) \<le> unat (1 :: 32 word)"
    by (simp add: hasCost_def isExpensive_def ex_costs)
       (simp add: ex_defs allInsts_def isApplyOfFunctionRefTo_def getReferencedFunction_def
          getFunction_def)
  show ?thesis
    using getFunctionCost_transparent_or_recursive
        [where F = exTransparentFn and Caller = None and Cutoff = 0]
      getFunctionCost_transparent_or_recursive
        [where F = exRecursiveFn and pre = "[exLoad, exSelfRef]" and AI = exSelfApply
           and post = "[exReturn]" and Caller = None and Cutoff = 1] t r
    by blast
qed

text \<open>
  The function \<open>f\<close> is not transparent and calls itself, and with cutoff 0 its cost is 1,
  not the sentinel: the load before the call already exceeds the cutoff.
\<close>

theorem getFunctionCost_recursive_counterexample:
  "\<not> fnIsTransparent (fnDecl exRecursiveFn) \<and>
   exSelfApply \<in> set (allInsts exRecursiveFn) \<and>
   isApplyOfFunctionRefTo (fnName (fnDecl exRecursiveFn)) exSelfApply \<and>
   getFunction exSelfApply = fnName (fnDecl exRecursiveFn) \<and>
   getFunctionCost exRecursiveFn None 0 = Inr 1 \<and> (1 :: 32 word) \<noteq> UINT_MAX"
proof -
  have "getFunctionCost exRecursiveFn None 0 = Inr 1"
    by (simp add: getFunctionCost_def exRecursiveFn_def ex_costs) (simp add: exDecl_def noFunction_def)
  moreover have "(1 :: 32 word) \<noteq> UINT_MAX" by (simp add: UINT_MAX_def)
  ultimately show ?thesis
    by (simp add: allInsts_def)
       (simp add: ex_defs isApplyOfFunctionRefTo_def getReferencedFunction_def getFunction_def)
qed


lemma allInsts_removeInstAt:
  assumes "b < length (Blocks F)" and "i < length (Insts (Blocks F ! b))"
  shows "\<exists>P x Q. allInsts F = P @ x # Q \<and> allInsts (removeInstAt F b i) = P @ Q"
proof -
  let ?Bs = "Blocks F"
  let ?xs = "Insts (?Bs ! b)"
  let ?B' = "(?Bs ! b) \<lparr> Insts := take i ?xs @ drop (Suc i) ?xs \<rparr>"
  have bs: "?Bs = take b ?Bs @ (?Bs ! b) # drop (Suc b) ?Bs"
    using assms(1) by (rule id_take_nth_drop)
  have bs': "?Bs [b := ?B'] = take b ?Bs @ ?B' # drop (Suc b) ?Bs"
    using assms(1) by (rule upd_conv_take_nth_drop)
  have xs: "?xs = take i ?xs @ (?xs ! i) # drop (Suc i) ?xs"
    using assms(2) by (rule id_take_nth_drop)
  let ?P = "concat (map Insts (take b ?Bs)) @ take i ?xs"
  let ?Q = "drop (Suc i) ?xs @ concat (map Insts (drop (Suc b) ?Bs))"
  have "concat (map Insts ?Bs) =
          concat (map Insts (take b ?Bs)) @ ?xs @ concat (map Insts (drop (Suc b) ?Bs))"
    by (subst bs) simp
  also have "\<dots> = ?P @ (?xs ! i) # ?Q"
    by (subst xs) simp
  finally have 1: "allInsts F = ?P @ (?xs ! i) # ?Q"
    by (simp add: allInsts_def)
  have 2: "allInsts (removeInstAt F b i) = ?P @ ?Q"
    by (simp add: allInsts_def removeInstAt_def bs')
  from 1 2 show ?thesis by blast
qed

text \<open>
  Claim C4, as amended. Removing one instruction from a function does not raise the value
  returned by \<open>getFunctionCost\<close>, unless the value after the removal is the sentinel
  \<open>UINT_MAX\<close>. (Monotonicity as stated fails: removing an expensive instruction that made
  the scan stop at the cutoff lets the scan reach a recursive apply behind it.)
\<close>

theorem getFunctionCost_remove_inst:
  assumes "b < length (Blocks F)" and "i < length (Insts (Blocks F ! b))"
    and "getFunctionCost F Caller Cutoff = Inr a"
    and "getFunctionCost (removeInstAt F b i) Caller Cutoff = Inr a'"
  shows "a' \<le> a \<or> a' = UINT_MAX"
proof (cases "fnIsTransparent (fnDecl F)")
  case True
  with assms(3,4) show ?thesis
    by (simp add: getFunctionCost_def removeInstAt_def)
next
  case False
  obtain P x Q where F: "allInsts F = P @ x # Q"
    and F': "allInsts (removeInstAt F b i) = P @ Q"
    using allInsts_removeInstAt [OF assms(1,2)] by blast
  from False assms(3) F obtain e
    where e: "getFunctionCost_BB Caller Cutoff (P @ x # Q) 0 = Inr e" and a: "a = exitValue e"
    by (auto simp: getFunctionCost_def getFunctionCost_Blocks_flat allInsts_def
          split: sum.splits)
  have d: "fnDecl (removeInstAt F b i) = fnDecl F"
    by (simp add: removeInstAt_def)
  from False assms(4) F' d obtain e'
    where e': "getFunctionCost_BB Caller Cutoff (P @ Q) 0 = Inr e'" and a': "a' = exitValue e'"
    by (auto simp: getFunctionCost_def getFunctionCost_Blocks_flat allInsts_def
          split: sum.splits)
  have "(0 :: 32 word) \<le> Cutoff" by simp
  from getFunctionCost_BB_remove [OF this e e'] a a' show ?thesis by simp
qed

theorem getFunctionCost_remove_inst_witness:
  "getFunctionCost exRecursiveFn None 5 = Inr UINT_MAX \<and>
   getFunctionCost (removeInstAt exRecursiveFn 0 2) None 5 = Inr 1 \<and>
   ((1 :: 32 word) \<le> UINT_MAX \<or> (1 :: 32 word) = UINT_MAX)"
proof -
  have b: "0 < length (Blocks exRecursiveFn)"
    and i: "2 < length (Insts (Blocks exRecursiveFn ! 0))"
    by (simp_all add: exRecursiveFn_def)
  have a: "getFunctionCost exRecursiveFn None 5 = Inr UINT_MAX"
    by (simp add: getFunctionCost_def exRecursiveFn_def ex_costs) (simp add: exDecl_def noFunction_def)
  have a': "getFunctionCost (removeInstAt exRecursiveFn 0 2) None 5 = Inr 1"
    by (simp add: getFunctionCost_def removeInstAt_def exRecursiveFn_def ex_costs)
       (simp add: exDecl_def noFunction_def)
  from getFunctionCost_remove_inst [OF b i a a'] a a' show ?thesis by simp
qed

text \<open>
  With cutoff 0 the function \<open>f\<close> costs 1; without its load it costs \<open>UINT_MAX\<close>.
\<close>

theorem getFunctionCost_remove_inst_counterexample:
  "getFunctionCost exRecursiveFn None 0 = Inr 1 \<and>
   getFunctionCost (removeInstAt exRecursiveFn 0 0) None 0 = Inr UINT_MAX \<and>
   (1 :: 32 word) < UINT_MAX"
proof -
  have a: "getFunctionCost exRecursiveFn None 0 = Inr 1"
    by (simp add: getFunctionCost_def exRecursiveFn_def ex_costs) (simp add: exDecl_def noFunction_def)
  have a': "getFunctionCost (removeInstAt exRecursiveFn 0 0) None 0 = Inr UINT_MAX"
    by (simp add: getFunctionCost_def removeInstAt_def exRecursiveFn_def ex_costs)
       (simp add: exDecl_def noFunction_def)
  have "(1 :: 32 word) < UINT_MAX" by (simp add: UINT_MAX_def word_order.not_eq_extremum [symmetric])
  with a a' show ?thesis by simp
qed

subsection \<open>The peephole rules\<close>

text \<open>
  Claim C10. The visitor of \<^verbatim>\<open>unchecked_enum_data\<close> returns no change, and leaves the
  combiner as it is, whenever the type of the operand has an archetype or is trivial;
  neither the operand being an \<^verbatim>\<open>unchecked_ref_bit_cast\<close> nor the extracted case being
  the first payloaded case of the enum changes that.
\<close>

theorem visitUncheckedEnumDataInst_archetype_or_trivial:
  assumes "getOperand UEDI 0 = Inr Op"
    and "hasArchetype (getType Op) \<or> isTrivial (getType Op)"
  shows "visitUncheckedEnumDataInst C UEDI = Inr (None, C)"
  using assms by (auto simp: visitUncheckedEnumDataInst_def bindF_def)

theorem visitUncheckedEnumDataInst_archetype_or_trivial_witness:
  "getOperand exUEDI 0 = Inr exCast \<and> isTrivial (getType exCast) \<and>
   getEnumOrBoundGenericEnum (getType exCast) = Some exOptionalDecl \<and>
   isFirstPayloadedCase exOptionalDecl (getElement exUEDI) \<and>
   visitUncheckedEnumDataInst exCombiner exUEDI = Inr (None, exCombiner)"
proof -
  have a: "getOperand exUEDI 0 = Inr exCast"
    by (simp add: exUEDI_def getOperand_def)
  have b: "hasArchetype (getType exCast) \<or> isTrivial (getType exCast)"
    by (simp add: exCast_def exTrivialEnumType_def plainType_def)
  have c: "isFirstPayloadedCase exOptionalDecl (getElement exUEDI)"
    by (simp add: exOptionalDecl_def exUEDI_def getElement_def)
  have d: "getEnumOrBoundGenericEnum (getType exCast) = Some exOptionalDecl"
    by (simp add: exCast_def exTrivialEnumType_def)
  have e: "isTrivial (getType exCast)"
    by (simp add: exCast_def exTrivialEnumType_def plainType_def)
  from visitUncheckedEnumDataInst_archetype_or_trivial [OF a b, of exCombiner] a c d e
  show ?thesis by simp
qed

text \<open>
  Claim C7. For a conditional branch whose condition is an apply of the builtin
  \<^verbatim>\<open>xor\<close> to a value \<open>X\<close> and the integer literal 1, the visitor returns a new conditional
  branch on \<open>X\<close> whose true destination and arguments are the false destination and
  arguments of the original, and whose false destination and arguments are the true ones
  of the original.
\<close>

theorem visitCondBranchInst_xor_one:
  assumes "getCondition CBI = Inr Cond"
    and "getKind Cond = ''ApplyInst''"
    and "getOperands Cond = [Callee, X, One]"
    and "getKind Callee = ''BuiltinFunctionRefInst''"
    and "builtinID (attrs Callee) = ''Xor''"
    and "getKind One = ''IntegerLiteralInst''"
    and "VAL (integerValue (attrs One)) = 1"
  shows "\<exists>New C'. visitCondBranchInst C CBI = Inr (Some New, C') \<and>
           getKind New = ''CondBranchInst'' \<and> getCondition New = Inr X \<and>
           getTrueBB New = getFalseBB CBI \<and> getFalseBB New = getTrueBB CBI \<and>
           getTrueArgs New = getFalseArgs CBI \<and> getFalseArgs New = getTrueArgs CBI"
proof -
  have m: "match_Xor_X_One Cond = Some X"
    using assms(2-7) by (simp add: match_Xor_X_One_def calleeIsBuiltin_def m_One_def)
  show ?thesis
    using assms(1) m
    by (simp add: visitCondBranchInst_def bindF_def replaceWith_def CondBranchInst_create_def
          allocInst_def getCondition_def getOperand_def getTrueBB_def getFalseBB_def
          getTrueArgs_def getFalseArgs_def)
qed

theorem visitCondBranchInst_xor_one_witness:
  "getCondition exCondBr = Inr exXor \<and> getTrueBB exCondBr = 1 \<and> getFalseBB exCondBr = 2 \<and>
   getTrueArgs exCondBr = [exArg0] \<and> getFalseArgs exCondBr = [exObject, exFlag] \<and>
   (\<exists>New C'. visitCondBranchInst exCombiner exCondBr = Inr (Some New, C') \<and>
      getCondition New = Inr exFlag \<and> getTrueBB New = 2 \<and> getFalseBB New = 1 \<and>
      getTrueArgs New = [exObject, exFlag] \<and> getFalseArgs New = [exArg0])"
proof -
  have c: "getCondition exCondBr = Inr exXor"
    by (simp add: exCondBr_def getCondition_def getOperand_def)
  have k: "getKind exXor = ''ApplyInst''"
    and o: "getOperands exXor = [exBuiltin 31 ''Xor'', exFlag, exIntLit 33 exInt1Type 1 1]"
    by (simp_all add: exXor_def)
  have b: "getKind (exBuiltin 31 ''Xor'') = ''BuiltinFunctionRefInst''"
    "builtinID (attrs (exBuiltin 31 ''Xor'')) = ''Xor''"
    by (simp_all add: exBuiltin_def)
  have l: "getKind (exIntLit 33 exInt1Type 1 1) = ''IntegerLiteralInst''"
    "VAL (integerValue (attrs (exIntLit 33 exInt1Type 1 1))) = 1"
    by (simp_all add: exIntLit_def mkAPInt_def)
  have v: "getTrueBB exCondBr = 1" "getFalseBB exCondBr = 2"
    "getTrueArgs exCondBr = [exArg0]" "getFalseArgs exCondBr = [exObject, exFlag]"
    by (simp_all add: exCondBr_def getTrueBB_def getFalseBB_def getTrueArgs_def getFalseArgs_def)
  from visitCondBranchInst_xor_one [OF c k o b l, of exCombiner] c v
  show ?thesis by auto
qed

lemma visitApplyInst_builtin_compare:
  assumes "getOperands AI = Callee # Args"
    and "getKind Callee = ''BuiltinFunctionRefInst''"
    and "builtinID (attrs Callee) = ''ICMP_EQ'' \<or> builtinID (attrs Callee) = ''ICMP_NE''"
  shows "visitApplyInst R C AI =
           optimizeBuiltinCompareEq (isZeroValue R) C AI (builtinID (attrs Callee) = ''ICMP_NE'')"
  using assms
  by (auto simp: visitApplyInst_def bindF_def getCallee_def getOperand_def dyn_cast_def)

text \<open>
  Claim C8, as amended. For an apply of the builtin \<^verbatim>\<open>icmp_eq\<close> or \<^verbatim>\<open>icmp_ne\<close> to two
  operands: when the analysis classifies either operand as unknown, no change; when it
  classifies both as non-zero, no change, whether the two operands are distinct or the
  same value; otherwise (both known, at least one zero) the result is a 1-bit integer
  literal of the type of the apply whose value is (left is zero = right is zero) xor the
  negation flag, which is set for \<^verbatim>\<open>icmp_ne\<close>.
\<close>

theorem visitApplyInst_compare_eq:
  assumes "getOperands AI = [Callee, A0, A1]"
    and "getKind Callee = ''BuiltinFunctionRefInst''"
    and "builtinID (attrs Callee) = ''ICMP_EQ'' \<or> builtinID (attrs Callee) = ''ICMP_NE''"
  shows "(isZeroValue R A0 = Unknown \<or> isZeroValue R A1 = Unknown
            \<longrightarrow> visitApplyInst R C AI = Inr (None, C)) \<and>
         (isZeroValue R A0 = NotZero \<and> isZeroValue R A1 = NotZero
            \<longrightarrow> visitApplyInst R C AI = Inr (None, C)) \<and>
         (isZeroValue R A0 \<noteq> Unknown \<and> isZeroValue R A1 \<noteq> Unknown \<and>
          (isZeroValue R A0 = Zero \<or> isZeroValue R A1 = Zero)
            \<longrightarrow> (\<exists>New C'. visitApplyInst R C AI = Inr (Some New, C') \<and>
                   getKind New = ''IntegerLiteralInst'' \<and> getType New = getType AI \<and>
                   BitWidth (getValue New) = 1 \<and>
                   VAL (getValue New) =
                     (if ((isZeroValue R A0 = Zero) = (isZeroValue R A1 = Zero))
                           \<noteq> (builtinID (attrs Callee) = ''ICMP_NE'')
                      then 1 else 0)))"
proof -
  have d: "visitApplyInst R C AI =
      optimizeBuiltinCompareEq (isZeroValue R) C AI (builtinID (attrs Callee) = ''ICMP_NE'')"
    using visitApplyInst_builtin_compare [OF assms(1) assms(2) assms(3)] .
  have a: "getArgument AI 0 = Inr A0" "getArgument AI 1 = Inr A1"
    using assms(1) by (simp_all add: getArgument_def getOperand_def)
  show ?thesis
    unfolding d optimizeBuiltinCompareEq_def
    using a
    by (cases "isZeroValue R A0"; cases "isZeroValue R A1")
       (simp_all add: bindF_def replaceWith_def IntegerLiteralInst_create_def allocInst_def
          getValue_def mkAPInt_def)
qed

lemma ex_zero_values:
  "isZeroValue exRules exArg0 = Unknown" "isZeroValue exRules exFive = NotZero"
  "isZeroValue exRules exZero = Zero"
  by (simp_all add: exRules_def exIsZeroValue_def exArg0_def exFive_def exZero_def exIntLit_def
        mkAPInt_def)

theorem visitApplyInst_compare_eq_witness:
  "visitApplyInst exRules exCombiner exCmpEqUnknown = Inr (None, exCombiner) \<and>
   visitApplyInst exRules exCombiner exCmpEqSame = Inr (None, exCombiner) \<and>
   (\<exists>New C'. visitApplyInst exRules exCombiner exCmpNe = Inr (Some New, C') \<and>
      getKind New = ''IntegerLiteralInst'' \<and> getType New = exInt1Type \<and>
      BitWidth (getValue New) = 1 \<and> VAL (getValue New) = 1)"
proof -
  have b: "\<And>i K. getKind (exBuiltin i K) = ''BuiltinFunctionRefInst''"
    "\<And>i K. builtinID (attrs (exBuiltin i K)) = K"
    by (simp_all add: exBuiltin_def)
  have o1: "getOperands exCmpEqUnknown = [exBuiltin 46 ''ICMP_EQ'', exArg0, exFive]"
    and o2: "getOperands exCmpEqSame = [exBuiltin 42 ''ICMP_EQ'', exFive, exFive]"
    and o3: "getOperands exCmpNe = [exBuiltin 44 ''ICMP_NE'', exZero, exFive]"
    and t3: "getType exCmpNe = exInt1Type"
    by (simp_all add: exCmpEqUnknown_def exCmpEqSame_def exCmpNe_def)
  have 1: "visitApplyInst exRules exCombiner exCmpEqUnknown = Inr (None, exCombiner)"
    using visitApplyInst_compare_eq [OF o1, of exRules exCombiner] b ex_zero_values by simp
  have 2: "visitApplyInst exRules exCombiner exCmpEqSame = Inr (None, exCombiner)"
    using visitApplyInst_compare_eq [OF o2, of exRules exCombiner] b ex_zero_values by simp
  have 3: "\<exists>New C'. visitApplyInst exRules exCombiner exCmpNe = Inr (Some New, C') \<and>
      getKind New = ''IntegerLiteralInst'' \<and> getType New = exInt1Type \<and>
      BitWidth (getValue New) = 1 \<and> VAL (getValue New) = 1"
    using visitApplyInst_compare_eq [OF o3, of exRules exCombiner] b ex_zero_values t3 by simp
  from 1 2 3 show ?thesis by blast
qed

text \<open>
  \<^verbatim>\<open>icmp_eq(%40, %40)\<close> with \<^verbatim>\<open>%40\<close> the literal 5: both operands are known to be non-zero
  and they are not distinct, and the rule makes no change instead of folding to 1.
\<close>

theorem visitApplyInst_compare_eq_counterexample:
  "getOperands exCmpEqSame = [exBuiltin 42 ''ICMP_EQ'', exFive, exFive] \<and>
   builtinID (attrs (exBuiltin 42 ''ICMP_EQ'')) = ''ICMP_EQ'' \<and>
   isZeroValue exRules exFive = NotZero \<and>
   visitApplyInst exRules exCombiner exCmpEqSame = Inr (None, exCombiner)"
proof -
  have o: "getOperands exCmpEqSame = [exBuiltin 42 ''ICMP_EQ'', exFive, exFive]"
    by (simp add: exCmpEqSame_def)
  have k: "getKind (exBuiltin 42 ''ICMP_EQ'') = ''BuiltinFunctionRefInst''"
    and i: "builtinID (attrs (exBuiltin 42 ''ICMP_EQ'')) = ''ICMP_EQ''"
    by (simp_all add: exBuiltin_def)
  have "visitApplyInst exRules exCombiner exCmpEqSame
          = optimizeBuiltinCompareEq (isZeroValue exRules) exCombiner exCmpEqSame False"
    using visitApplyInst_builtin_compare [OF o k, of exRules exCombiner] i by simp
  also have "\<dots> = Inr (None, exCombiner)"
    using o ex_zero_values(2)
    by (simp add: optimizeBuiltinCompareEq_def bindF_def getArgument_def getOperand_def)
  finally show ?thesis using o i ex_zero_values(2) by simp
qed

text \<open>
  Claim C9, as amended. For a \<^verbatim>\<open>release_value\<close> or \<^verbatim>\<open>retain_value\<close> whose operand is not
  itself an enum instruction: if the type of the operand has reference semantics, the
  visitor returns a \<^verbatim>\<open>strong_release\<close> or \<^verbatim>\<open>strong_retain\<close> of the same operand and
  erases nothing; if the type does not have reference semantics and is trivial, the
  visitor erases the instruction and returns null. The test for reference semantics comes
  before the test for triviality. An operand that is an enum instruction is handled
  before both tests, whatever its type: the instruction is erased when the enum
  instruction has no payload or a payload of a trivial type, and otherwise the visitor
  returns a \<^verbatim>\<open>release_value\<close> or \<^verbatim>\<open>retain_value\<close> of the payload and erases nothing.
\<close>

theorem visit_release_retain_value:
  assumes "getOperand RVI 0 = Inr Operand"
  shows "(getKind Operand \<noteq> ''EnumInst'' \<and> hasReferenceSemantics (getType Operand) \<longrightarrow>
            (\<exists>New C'. visitReleaseValueInst C RVI = Inr (Some New, C') \<and>
               getKind New = ''StrongReleaseInst'' \<and> getOperands New = [Operand] \<and>
               Erased C' = Erased C) \<and>
            (\<exists>New C'. visitRetainValueInst C BB RVI = Inr (Some New, C') \<and>
               getKind New = ''StrongRetainInst'' \<and> getOperands New = [Operand] \<and>
               Erased C' = Erased C)) \<and>
         (getKind Operand \<noteq> ''EnumInst'' \<and>
          \<not> hasReferenceSemantics (getType Operand) \<and> isTrivial (getType Operand) \<longrightarrow>
            visitReleaseValueInst C RVI = Inr (None, C \<lparr> Erased := Erased C @ [ident RVI] \<rparr>) \<and>
            visitRetainValueInst C BB RVI = Inr (None, C \<lparr> Erased := Erased C @ [ident RVI] \<rparr>)) \<and>
         (getKind Operand = ''EnumInst'' \<and>
          (getOperands Operand = [] \<or>
           (getOperands Operand = Payload # Rest \<and> isTrivial (getType Payload))) \<longrightarrow>
            visitReleaseValueInst C RVI = Inr (None, C \<lparr> Erased := Erased C @ [ident RVI] \<rparr>) \<and>
            visitRetainValueInst C BB RVI = Inr (None, C \<lparr> Erased := Erased C @ [ident RVI] \<rparr>)) \<and>
         (getKind Operand = ''EnumInst'' \<and>
          getOperands Operand = Payload # Rest \<and> \<not> isTrivial (getType Payload) \<longrightarrow>
            (\<exists>New C'. visitReleaseValueInst C RVI = Inr (Some New, C') \<and>
               getKind New = ''ReleaseValueInst'' \<and> getOperands New = [Payload] \<and>
               Erased C' = Erased C) \<and>
            (\<exists>New C'. visitRetainValueInst C BB RVI = Inr (Some New, C') \<and>
               getKind New = ''RetainValueInst'' \<and> getOperands New = [Payload] \<and>
               Erased C' = Erased C))"
proof (intro conjI impI)
  assume "getKind Operand \<noteq> ''EnumInst'' \<and> hasReferenceSemantics (getType Operand)"
  with assms show
    "\<exists>New C'. visitReleaseValueInst C RVI = Inr (Some New, C') \<and>
       getKind New = ''StrongReleaseInst'' \<and> getOperands New = [Operand] \<and> Erased C' = Erased C"
    "\<exists>New C'. visitRetainValueInst C BB RVI = Inr (Some New, C') \<and>
       getKind New = ''StrongRetainInst'' \<and> getOperands New = [Operand] \<and> Erased C' = Erased C"
    by (simp_all add: visitReleaseValueInst_def visitRetainValueInst_def bindF_def dyn_cast_def
          replaceWith_def allocInst_def Let_def)
next
  assume "getKind Operand \<noteq> ''EnumInst'' \<and>
          \<not> hasReferenceSemantics (getType Operand) \<and> isTrivial (getType Operand)"
  with assms show
    "visitReleaseValueInst C RVI = Inr (None, C \<lparr> Erased := Erased C @ [ident RVI] \<rparr>)"
    "visitRetainValueInst C BB RVI = Inr (None, C \<lparr> Erased := Erased C @ [ident RVI] \<rparr>)"
    by (simp_all add: visitReleaseValueInst_def visitRetainValueInst_def bindF_def dyn_cast_def
          eraseInstFromFunction_def Let_def)
next
  assume "getKind Operand = ''EnumInst'' \<and>
          (getOperands Operand = [] \<or>
           (getOperands Operand = Payload # Rest \<and> isTrivial (getType Payload)))"
  with assms show
    "visitReleaseValueInst C RVI = Inr (None, C \<lparr> Erased := Erased C @ [ident RVI] \<rparr>)"
    "visitRetainValueInst C BB RVI = Inr (None, C \<lparr> Erased := Erased C @ [ident RVI] \<rparr>)"
    by (auto simp: visitReleaseValueInst_def visitRetainValueInst_def bindF_def dyn_cast_def
          eraseInstFromFunction_def Let_def)
next
  assume "getKind Operand = ''EnumInst'' \<and>
          getOperands Operand = Payload # Rest \<and> \<not> isTrivial (getType Payload)"
  with assms show
    "\<exists>New C'. visitReleaseValueInst C RVI = Inr (Some New, C') \<and>
       getKind New = ''ReleaseValueInst'' \<and> getOperands New = [Payload] \<and> Erased C' = Erased C"
    "\<exists>New C'. visitRetainValueInst C BB RVI = Inr (Some New, C') \<and>
       getKind New = ''RetainValueInst'' \<and> getOperands New = [Payload] \<and> Erased C' = Erased C"
    by (simp_all add: visitReleaseValueInst_def visitRetainValueInst_def bindF_def dyn_cast_def
          replaceWith_def allocInst_def Let_def)
qed

theorem visit_release_retain_value_witness:
  "(\<exists>New C'. visitReleaseValueInst exCombiner exReleaseObject = Inr (Some New, C') \<and>
      getKind New = ''StrongReleaseInst'' \<and> getOperands New = [exObject]) \<and>
   (\<exists>New C'. visitRetainValueInst exCombiner exRCBlock exRetainObject = Inr (Some New, C') \<and>
      getKind New = ''StrongRetainInst'' \<and> getOperands New = [exObject]) \<and>
   visitReleaseValueInst exCombiner exReleaseInt = Inr (None, exCombiner \<lparr> Erased := [25] \<rparr>) \<and>
   visitRetainValueInst exCombiner exRCBlock exRetainInt = Inr (None, exCombiner \<lparr> Erased := [26] \<rparr>) \<and>
   visitReleaseValueInst exCombiner (exRelease 35 exEnumNone)
     = Inr (None, exCombiner \<lparr> Erased := [35] \<rparr>) \<and>
   visitRetainValueInst exCombiner exRCBlock (exRetain 36 exEnumSomeInt)
     = Inr (None, exCombiner \<lparr> Erased := [36] \<rparr>) \<and>
   (\<exists>New C'. visitReleaseValueInst exCombiner (exRelease 37 exEnumSomeObject) = Inr (Some New, C') \<and>
      getKind New = ''ReleaseValueInst'' \<and> getOperands New = [exObject]) \<and>
   (\<exists>New C'. visitRetainValueInst exCombiner exRCBlock (exRetain 38 exEnumSomeObject)
        = Inr (Some New, C') \<and>
      getKind New = ''RetainValueInst'' \<and> getOperands New = [exObject])"
proof -
  have o: "getOperand exReleaseObject 0 = Inr exObject" "getOperand exRetainObject 0 = Inr exObject"
    "getOperand exReleaseInt 0 = Inr exArg0" "getOperand exRetainInt 0 = Inr exArg0"
    "\<And>i V. getOperand (exRelease i V) 0 = Inr V" "\<And>i V. getOperand (exRetain i V) 0 = Inr V"
    by (simp_all add: getOperand_def exReleaseObject_def exRetainObject_def exReleaseInt_def
          exRetainInt_def exRelease_def exRetain_def)
  have k: "getKind exObject \<noteq> ''EnumInst''" "getKind exArg0 \<noteq> ''EnumInst''"
    "getKind exEnumNone = ''EnumInst''" "getKind exEnumSomeInt = ''EnumInst''"
    "getKind exEnumSomeObject = ''EnumInst''"
    by (simp_all add: exObject_def exArg0_def exEnumNone_def exEnumSomeInt_def
          exEnumSomeObject_def exEnum_def)
  have p: "getOperands exEnumNone = []" "getOperands exEnumSomeInt = exArg0 # []"
    "getOperands exEnumSomeObject = exObject # []"
    by (simp_all add: exEnumNone_def exEnumSomeInt_def exEnumSomeObject_def exEnum_def)
  have t: "hasReferenceSemantics (getType exObject)" "\<not> isTrivial (getType exObject)"
    "\<not> hasReferenceSemantics (getType exArg0)" "isTrivial (getType exArg0)"
    by (simp_all add: exObject_def exArg0_def exClassType_def exType_def plainType_def)
  have i: "ident exReleaseInt = 25" "ident exRetainInt = 26" "Erased exCombiner = []"
    "\<And>i V. ident (exRelease i V) = i" "\<And>i V. ident (exRetain i V) = i"
    by (simp_all add: exReleaseInt_def exRetainInt_def exCombiner_def exRelease_def exRetain_def)
  from visit_release_retain_value [OF o(1), where C = exCombiner and BB = exRCBlock]
    visit_release_retain_value [OF o(2), where C = exCombiner and BB = exRCBlock]
    visit_release_retain_value [OF o(3), where C = exCombiner and BB = exRCBlock]
    visit_release_retain_value [OF o(4), where C = exCombiner and BB = exRCBlock]
    visit_release_retain_value [OF o(5) [of 35 exEnumNone], where C = exCombiner
      and BB = exRCBlock and Payload = exArg0 and Rest = "[]"]
    visit_release_retain_value [OF o(6) [of 36 exEnumSomeInt], where C = exCombiner
      and BB = exRCBlock and Payload = exArg0 and Rest = "[]"]
    visit_release_retain_value [OF o(5) [of 37 exEnumSomeObject], where C = exCombiner
      and BB = exRCBlock and Payload = exObject and Rest = "[]"]
    visit_release_retain_value [OF o(6) [of 38 exEnumSomeObject], where C = exCombiner
      and BB = exRCBlock and Payload = exObject and Rest = "[]"]
    k p t i
  show ?thesis by auto
qed

text \<open>
  The type of a thin function is trivial and has reference semantics: the
  \<^verbatim>\<open>release_value\<close> of \<^verbatim>\<open>%23\<close> is not erased but becomes a \<^verbatim>\<open>strong_release\<close>.
\<close>

theorem visitReleaseValueInst_trivial_counterexample:
  "getOperand exReleaseThin 0 = Inr exThinRef \<and> isTrivial (getType exThinRef) \<and>
   visitReleaseValueInst exCombiner exReleaseThin =
     Inr (Some (ValueBase 100 ''StrongReleaseInst'' noResultType [exThinRef] (mkAttrs ''f'' exLoc)),
          exCombiner \<lparr> NextIdent := 101 \<rparr>)"
  by (simp add: visitReleaseValueInst_def bindF_def dyn_cast_def replaceWith_def allocInst_def
        eraseInstFromFunction_def Let_def getOperand_def getFunction_def getLoc_def
        exReleaseThin_def exThinRef_def exThinFunctionType_def plainType_def exCombiner_def
        exAttrs_def mkAttrs_def)

subsection \<open>Concatenation of string literals\<close>

lemma createStringLiteral_result:
  "createStringLiteral C Fn Loc V E = (New, C1) \<Longrightarrow>
     getKind New = ''StringLiteralInst'' \<and> getStringValue New = V \<and> getEncoding New = E \<and>
     ident New = NextIdent C \<and> NextIdent C1 = Suc (NextIdent C) \<and>
     Inserted C1 = Inserted C @ [New] \<and> Erased C1 = Erased C"
  by (auto simp: createStringLiteral_def builderInsert_def allocInst_def getStringValue_def
        getEncoding_def)

lemma createIntegerLiteral_result:
  "createIntegerLiteral C Fn Loc Ty V = (New, C1) \<Longrightarrow>
     getKind New = ''IntegerLiteralInst'' \<and> getValue New = V \<and> getType New = Ty \<and>
     ident New = NextIdent C \<and> NextIdent C1 = Suc (NextIdent C) \<and>
     Inserted C1 = Inserted C @ [New] \<and> Erased C1 = Erased C"
  by (auto simp: createIntegerLiteral_def IntegerLiteralInst_create_def builderInsert_def
        allocInst_def getValue_def)

lemma adjustEncodings_result:
  assumes "adjustEncodings C AI S0 = Inr (S, C1)"
  shows "AILeft S = AILeft S0 \<and> AIRight S = AIRight S0 \<and>
         getEncoding (SLILeft S) = resultEncoding S0 \<and>
         getEncoding (SLIRight S) = resultEncoding S0 \<and>
         getStringValue (SLILeft S) = getStringValue (SLILeft S0) \<and>
         getStringValue (SLIRight S) = getStringValue (SLIRight S0) \<and>
         FRIConvertFromBuiltin S = Some (snd (convertFromSide S0)) \<and>
         IsTransparent S = isTransparentApply (fst (convertFromSide S0)) \<and>
         (\<exists>T. FuncResultType S = Some T \<and>
              getOperand (fst (convertFromSide S0)) (if resultEncoding S0 = UTF8 then 4 else 3) = Inr T) \<and>
         Erased C1 = Erased C \<and>
         (\<exists>Re. Inserted C1 = Inserted C @ Re \<and>
               list_all (\<lambda>I. getKind I = ''StringLiteralInst'') Re \<and>
               length Re = (if getEncoding (SLILeft S0) = getEncoding (SLIRight S0) then 0 else 1))"
proof (cases "getEncoding (SLILeft S0)"; cases "getEncoding (SLIRight S0)")
  assume e: "getEncoding (SLILeft S0) = UTF8" "getEncoding (SLIRight S0) = UTF8"
  with assms show ?thesis
    by (auto simp: adjustEncodings_def bindF_def resultEncoding_def convertFromSide_def
          split: sum.splits)
next
  assume e: "getEncoding (SLILeft S0) = UTF16" "getEncoding (SLIRight S0) = UTF16"
  with assms show ?thesis
    by (auto simp: adjustEncodings_def bindF_def resultEncoding_def convertFromSide_def
          split: sum.splits)
next
  assume e: "getEncoding (SLILeft S0) = UTF8" "getEncoding (SLIRight S0) = UTF16"
  with assms show ?thesis
    by (auto simp: adjustEncodings_def bindF_def resultEncoding_def convertFromSide_def
          createStringLiteral_def builderInsert_def allocInst_def getEncoding_def
          getStringValue_def
          split: sum.splits)
next
  assume e: "getEncoding (SLILeft S0) = UTF16" "getEncoding (SLIRight S0) = UTF8"
  with assms show ?thesis
    by (auto simp: adjustEncodings_def bindF_def resultEncoding_def convertFromSide_def
          createStringLiteral_def builderInsert_def allocInst_def getEncoding_def
          getStringValue_def
          split: sum.splits)
qed


lemma mod_pow_one: "0 < w \<Longrightarrow> (Suc 0) mod 2 ^ w = Suc 0"
  by (cases w) auto

text \<open>
  What the fold builds. Whenever \<open>optimize\<close> returns a new instruction \<open>New\<close> for a call
  whose operands were extracted as \<open>S0\<close>, \<open>New\<close> is a call whose operands are: the
  \<^verbatim>\<open>function_ref\<close> of the operand call \<open>convertFromSide S0\<close>; one new string literal
  whose value is the left value followed by the right value, in the resulting encoding; a
  new integer literal, of the type and width of the left length operand, whose value is
  the sum of the counts of code units of the two literals taken in the arithmetic of that
  width; when and only when the resulting encoding is UTF-8, a new integer literal that
  is 1 exactly when the \<^verbatim>\<open>isASCII\<close> literals of both sides are 1; and the result-type
  operand of that operand call. \<open>New\<close> has the transparency of that operand call. The
  builder has inserted exactly these new literals, preceded by one re-encoded UTF-16
  literal when the encodings of the two sides differ, and no call; nothing is erased.
\<close>

lemma string_concat_fold_result:
  assumes ex: "extractStringConcatOperands AI = Inr (Some S0)"
    and opt: "StringConcatenationOptimizer_optimize codeUnits C AI = Inr (Some New, C')"
  shows "\<exists>NewSLI Len AsciiArgs T Re LL.
     getKind New = ''ApplyInst'' \<and>
     getOperand (AILeft S0) 2 = Inr LL \<and> getType Len = getType LL \<and>
     BitWidth (getValue Len) = BitWidth (getValue LL) \<and>
     getOperands New = snd (convertFromSide S0) # NewSLI # Len # AsciiArgs @ [T] \<and>
     getOperand (fst (convertFromSide S0)) (if resultEncoding S0 = UTF8 then 4 else 3) = Inr T \<and>
     isTransparentApply New = isTransparentApply (fst (convertFromSide S0)) \<and>
     getKind NewSLI = ''StringLiteralInst'' \<and>
     getStringValue NewSLI = getStringValue (SLILeft S0) @ getStringValue (SLIRight S0) \<and>
     getEncoding NewSLI = resultEncoding S0 \<and>
     getKind Len = ''IntegerLiteralInst'' \<and>
     VAL (getValue Len) =
       (codeUnits (resultEncoding S0) (getStringValue (SLILeft S0)) +
        codeUnits (resultEncoding S0) (getStringValue (SLIRight S0)))
         mod 2 ^ BitWidth (getValue Len) \<and>
     (resultEncoding S0 = UTF8 \<longrightarrow>
        (\<exists>Ascii AL AR. AsciiArgs = [Ascii] \<and> getKind Ascii = ''IntegerLiteralInst'' \<and>
           getOperand (AILeft S0) 3 = Inr AL \<and> getOperand (AIRight S0) 3 = Inr AR \<and>
           (VAL (getValue Ascii) = 1 \<longleftrightarrow> VAL (getValue AL) = 1 \<and> VAL (getValue AR) = 1))) \<and>
     (resultEncoding S0 \<noteq> UTF8 \<longrightarrow> AsciiArgs = []) \<and>
     Inserted C' = Inserted C @ Re @ NewSLI # Len # AsciiArgs \<and>
     list_all (\<lambda>I. getKind I = ''StringLiteralInst'') Re \<and>
     length Re = (if getEncoding (SLILeft S0) = getEncoding (SLIRight S0) then 0 else 1) \<and>
     Erased C' = Erased C"
proof -
  obtain S C1 where adj: "adjustEncodings C AI S0 = Inr (S, C1)"
    using opt ex
    by (cases "adjustEncodings C AI S0")
       (auto simp: StringConcatenationOptimizer_optimize_def bindF_def)
  note A = adjustEncodings_result [OF adj]
  from A obtain T Re where
    T: "FuncResultType S = Some T"
       "getOperand (fst (convertFromSide S0)) (if resultEncoding S0 = UTF8 then 4 else 3) = Inr T" and
    Re: "Inserted C1 = Inserted C @ Re" "list_all (\<lambda>I. getKind I = ''StringLiteralInst'') Re"
        "length Re = (if getEncoding (SLILeft S0) = getEncoding (SLIRight S0) then 0 else 1)"
    by blast
  obtain NewSLI C2 where sl:
    "createStringLiteral C1 (getFunction AI) (getLoc AI)
       (getStringValue (SLILeft S) @ getStringValue (SLIRight S)) (getEncoding (SLILeft S))
     = (NewSLI, C2)"
    by fastforce
  note SL = createStringLiteral_result [OF sl]
  have opt1: "bindF (getOperand (AILeft S) 2) (\<lambda>L2.
       bindF (getConcatenatedLength codeUnits S) (\<lambda>N.
       case createIntegerLiteral C2 (getFunction AI) (getLoc AI) (getType L2) N of (Len, C3) \<Rightarrow>
       bindF (if getEncoding (SLILeft S) = UTF8
              then bindF (isAscii S) (\<lambda>IsAscii.
                   bindF (getOperand (AILeft S) 3) (\<lambda>L3.
                   case integerWidth (getType L3) of
                     None \<Rightarrow> Inl AssertionFailure
                   | Some w \<Rightarrow>
                       if w = 0 then Inl AssertionFailure
                       else (case createIntegerLiteral C3 (getFunction AI) (getLoc AI) (getType L3)
                                    (mkAPInt w (if IsAscii then 1 else 0)) of
                               (Ascii, C4) \<Rightarrow> Inr ([Ascii], C4))))
              else Inr ([], C3)) (\<lambda>(AsciiArgs, C4).
       case (FuncResultType S, FRIConvertFromBuiltin S) of
         (Some T, Some FRI) \<Rightarrow>
           replaceWith (ApplyInst_create C4 (getFunction AI) (getLoc AI) FRI
                          (fnResultType (getReferencedFunction FRI))
                          ([NewSLI, Len] @ AsciiArgs @ [T]) (IsTransparent S))
       | _ \<Rightarrow> Inl NullDereference)))
     = Inr (Some New, C')"
    using opt ex adj sl
    by (simp add: StringConcatenationOptimizer_optimize_def bindF_def Let_def)
  from opt1 obtain L2 where l2: "getOperand (AILeft S) 2 = Inr L2"
    by (cases "getOperand (AILeft S) 2") (auto simp: bindF_def)
  from opt1 l2 obtain N where n: "getConcatenatedLength codeUnits S = Inr N"
    by (cases "getConcatenatedLength codeUnits S") (auto simp: bindF_def)
  obtain Len C3 where il:
    "createIntegerLiteral C2 (getFunction AI) (getLoc AI) (getType L2) N = (Len, C3)"
    by fastforce
  note IL = createIntegerLiteral_result [OF il]
  have lenval: "VAL N =
       (codeUnits (resultEncoding S0) (getStringValue (SLILeft S0)) +
        codeUnits (resultEncoding S0) (getStringValue (SLIRight S0))) mod 2 ^ BitWidth N \<and>
       BitWidth N = BitWidth (getValue L2) \<and> getOperand (AILeft S0) 2 = Inr L2"
    using n A l2
    by (auto simp: getConcatenatedLength_def bindF_def Let_def getCodeUnitCount_def APInt_add_def
          mkAPInt_def dyn_cast_def split: sum.splits option.splits if_splits)
  show ?thesis
  proof (cases "resultEncoding S0 = UTF8")
    case False
    then have ne: "getEncoding (SLILeft S) \<noteq> UTF8" using A by simp
    from opt1 l2 n il ne T A
    have new: "New = fst (ApplyInst_create C3 (getFunction AI) (getLoc AI) (snd (convertFromSide S0))
                 (fnResultType (getReferencedFunction (snd (convertFromSide S0))))
                 ([NewSLI, Len] @ [] @ [T]) (isTransparentApply (fst (convertFromSide S0))))"
      and c': "C' = snd (ApplyInst_create C3 (getFunction AI) (getLoc AI) (snd (convertFromSide S0))
                 (fnResultType (getReferencedFunction (snd (convertFromSide S0))))
                 ([NewSLI, Len] @ [] @ [T]) (isTransparentApply (fst (convertFromSide S0))))"
      by (auto simp: bindF_def replaceWith_def split: prod.splits)
    have "getKind New = ''ApplyInst'' \<and>
     getOperands New = snd (convertFromSide S0) # NewSLI # Len # [] @ [T] \<and>
     isTransparentApply New = isTransparentApply (fst (convertFromSide S0)) \<and>
     Inserted C' = Inserted C @ Re @ NewSLI # Len # [] \<and> Erased C' = Erased C"
      using new c' SL IL Re A
      by (simp add: ApplyInst_create_def allocInst_def isTransparentApply_def)
    with False SL IL A lenval Re T(2) show ?thesis
      by (intro exI [of _ NewSLI] exI [of _ Len] exI [of _ "[]"] exI [of _ T] exI [of _ Re] exI [of _ L2]) simp
  next
    case True
    then have e: "getEncoding (SLILeft S) = UTF8" using A by simp
    from opt1 l2 n il e obtain IsAscii where ia: "isAscii S = Inr IsAscii"
      by (cases "isAscii S") (auto simp: bindF_def)
    from opt1 l2 n il e ia obtain L3 where l3: "getOperand (AILeft S) 3 = Inr L3"
      by (cases "getOperand (AILeft S) 3") (auto simp: bindF_def)
    from opt1 l2 n il e ia l3 obtain w where w: "integerWidth (getType L3) = Some w" "0 < w"
      by (cases "integerWidth (getType L3)") (auto simp: bindF_def split: if_splits)
    obtain Ascii C4 where al:
      "createIntegerLiteral C3 (getFunction AI) (getLoc AI) (getType L3)
         (mkAPInt w (if IsAscii then 1 else 0)) = (Ascii, C4)"
      by fastforce
    note AL = createIntegerLiteral_result [OF al]
    from ia A obtain AL' AR' where ops: "getOperand (AILeft S0) 3 = Inr AL'"
        "getOperand (AIRight S0) 3 = Inr AR'"
        and isa: "IsAscii \<longleftrightarrow> VAL (getValue AL') = 1 \<and> VAL (getValue AR') = 1"
      by (auto simp: isAscii_def bindF_def Let_def dyn_cast_def
            split: sum.splits option.splits if_splits)
    have av: "VAL (getValue Ascii) = 1 \<longleftrightarrow> IsAscii"
      using AL w(2) by (auto simp: mkAPInt_def mod_pow_one)
    from opt1 l2 n il e ia l3 w al T A
    have new: "New = fst (ApplyInst_create C4 (getFunction AI) (getLoc AI) (snd (convertFromSide S0))
                 (fnResultType (getReferencedFunction (snd (convertFromSide S0))))
                 ([NewSLI, Len] @ [Ascii] @ [T]) (isTransparentApply (fst (convertFromSide S0))))"
      and c': "C' = snd (ApplyInst_create C4 (getFunction AI) (getLoc AI) (snd (convertFromSide S0))
                 (fnResultType (getReferencedFunction (snd (convertFromSide S0))))
                 ([NewSLI, Len] @ [Ascii] @ [T]) (isTransparentApply (fst (convertFromSide S0))))"
      by (auto simp: bindF_def replaceWith_def split: prod.splits)
    have "getKind New = ''ApplyInst'' \<and>
     getOperands New = snd (convertFromSide S0) # NewSLI # Len # [Ascii] @ [T] \<and>
     isTransparentApply New = isTransparentApply (fst (convertFromSide S0)) \<and>
     Inserted C' = Inserted C @ Re @ NewSLI # Len # [Ascii] \<and> Erased C' = Erased C"
      using new c' SL IL AL Re A
      by (simp add: ApplyInst_create_def allocInst_def isTransparentApply_def)
    with True SL IL AL A lenval Re ops isa av T(2) show ?thesis
      by (intro exI [of _ NewSLI] exI [of _ Len] exI [of _ "[Ascii]"] exI [of _ T] exI [of _ Re] exI [of _ L2])
         simp
  qed
qed


lemmas string_eval_defs = Let_def bindF_def getOperand_def getCallee_def dyn_cast_def
  replaceWith_def allocInst_def builderInsert_def getFunction_def
  getLoc_def getNumOperands_def getReferencedFunction_def hasSemanticsString_def
  hasDefinedSemantics_def getEncoding_def getStringValue_def getValue_def isTransparentApply_def
  createStringLiteral_def createIntegerLiteral_def IntegerLiteralInst_create_def
  ApplyInst_create_def getCodeUnitCount_def APInt_add_def mkAPInt_def
  extractStringConcatOperands_def adjustEncodings_def getConcatenatedLength_def isAscii_def
  StringConcatenationOptimizer_optimize_def optimizeConcatenationOfStringLiterals_def
  exFoo_def exBar_def exOtherBar_def exMakeCall_def exFnRef_def exStringFn_def exStrLit_def
  exIntLit_def exAttrs_def exStringMetatype_def exInt1Type_def exType_def plainType_def
  exCombiner_def

text \<open>
  The scenario of the specification: \<^verbatim>\<open>"foo"\<close> and \<^verbatim>\<open>"bar"\<close> give one literal
  \<^verbatim>\<open>"foobar"\<close>, length 6, ASCII flag 1 and one transparent call of the same maker.
\<close>

lemma string_concat_fold_result_example:
  "\<exists>New C' NewSLI Len Ascii.
     StringConcatenationOptimizer_optimize (\<lambda>E V. length V) exCombiner exConcatCall
       = Inr (Some New, C') \<and>
     getOperands New =
       [exFnRef 50 (exStringFn ''make'' ''string.makeUTF8''), NewSLI, Len, Ascii, exStringMetatype] \<and>
     isTransparentApply New \<and>
     getStringValue NewSLI = ''foobar'' \<and> getEncoding NewSLI = UTF8 \<and>
     VAL (getValue Len) = 6 \<and> VAL (getValue Ascii) = 1 \<and>
     Inserted C' = [NewSLI, Len, Ascii]"
proof -
  let ?S0 = "\<lparr> SLILeft = exStrLit 51 ''foo'' UTF8, SLIRight = exStrLit 56 ''bar'' UTF8,
               FRILeft = exFnRef 50 (exStringFn ''make'' ''string.makeUTF8''),
               FRIRight = exFnRef 55 (exStringFn ''make'' ''string.makeUTF8''),
               AILeft = exFoo, AIRight = exBar, FRIConvertFromBuiltin = None,
               IsTransparent = False, FuncResultType = None \<rparr>"
  have ex: "extractStringConcatOperands exConcatCall = Inr (Some ?S0)"
    by (simp add: exConcatCall_def string_eval_defs)
  have "\<exists>New C'. StringConcatenationOptimizer_optimize (\<lambda>E V. length V) exCombiner exConcatCall
          = Inr (Some New, C')"
    by (simp add: exConcatCall_def string_eval_defs)
  then obtain New C' where opt:
    "StringConcatenationOptimizer_optimize (\<lambda>E V. length V) exCombiner exConcatCall
       = Inr (Some New, C')"
    by blast
  have enc: "resultEncoding ?S0 = UTF8"
    by (simp add: resultEncoding_def getEncoding_def exStrLit_def)
  have mk: "convertFromSide ?S0 = (exFoo, exFnRef 50 (exStringFn ''make'' ''string.makeUTF8''))"
    by (simp add: convertFromSide_def resultEncoding_def getEncoding_def exStrLit_def)
  have vals: "getStringValue (SLILeft ?S0) = ''foo''" "getStringValue (SLIRight ?S0) = ''bar''"
    "getEncoding (SLILeft ?S0) = getEncoding (SLIRight ?S0)"
    by (simp_all add: getStringValue_def getEncoding_def exStrLit_def)
  have ops: "getOperand (AILeft ?S0) 2 = Inr (exIntLit 52 exType 64 (length ''foo''))"
    "getOperand (AILeft ?S0) 3 = Inr (exIntLit 53 exInt1Type 1 1)"
    "getOperand (AIRight ?S0) 3 = Inr (exIntLit 58 exInt1Type 1 1)"
    "getOperand (AILeft ?S0) 4 = Inr exStringMetatype"
    by (simp_all add: getOperand_def exFoo_def exBar_def exMakeCall_def)
  have lits: "BitWidth (getValue (exIntLit 52 exType 64 (length ''foo''))) = 64"
    "VAL (getValue (exIntLit 53 exInt1Type 1 1)) = 1"
    "VAL (getValue (exIntLit 58 exInt1Type 1 1)) = 1"
    by (simp_all add: getValue_def exIntLit_def mkAPInt_def)
  have tr: "isTransparentApply exFoo"
    by (simp add: isTransparentApply_def exFoo_def exMakeCall_def)
  have ins: "Inserted exCombiner = []"
    by (simp add: exCombiner_def)
  from string_concat_fold_result [OF ex opt]
  obtain NewSLI Len AsciiArgs T Re LL where r:
     "getOperand (AILeft ?S0) 2 = Inr LL"
     "BitWidth (getValue Len) = BitWidth (getValue LL)"
     "getOperands New = snd (convertFromSide ?S0) # NewSLI # Len # AsciiArgs @ [T]"
     "getOperand (fst (convertFromSide ?S0)) (if resultEncoding ?S0 = UTF8 then 4 else 3) = Inr T"
     "isTransparentApply New = isTransparentApply (fst (convertFromSide ?S0))"
     "getStringValue NewSLI = getStringValue (SLILeft ?S0) @ getStringValue (SLIRight ?S0)"
     "getEncoding NewSLI = resultEncoding ?S0"
     "VAL (getValue Len) =
       ((\<lambda>E V. length V) (resultEncoding ?S0) (getStringValue (SLILeft ?S0)) +
        (\<lambda>E V. length V) (resultEncoding ?S0) (getStringValue (SLIRight ?S0)))
         mod 2 ^ BitWidth (getValue Len)"
     "resultEncoding ?S0 = UTF8 \<longrightarrow>
        (\<exists>Ascii AL AR. AsciiArgs = [Ascii] \<and> getKind Ascii = ''IntegerLiteralInst'' \<and>
           getOperand (AILeft ?S0) 3 = Inr AL \<and> getOperand (AIRight ?S0) 3 = Inr AR \<and>
           (VAL (getValue Ascii) = 1 \<longleftrightarrow> VAL (getValue AL) = 1 \<and> VAL (getValue AR) = 1))"
     "Inserted C' = Inserted exCombiner @ Re @ NewSLI # Len # AsciiArgs"
     "length Re = (if getEncoding (SLILeft ?S0) = getEncoding (SLIRight ?S0) then 0 else 1)"
    by blast
  from r(9) enc ops lits obtain Ascii where a: "AsciiArgs = [Ascii]" "VAL (getValue Ascii) = 1"
    by auto
  have T: "T = exStringMetatype"
    using r(4) enc mk ops(4) by simp
  have len: "VAL (getValue Len) = 6"
    using r(1,2,8) ops(1) lits(1) vals enc by simp
  have re: "Re = []" using r(11) vals(3) by simp
  show ?thesis
    using opt r(3,5,6,7,10) a mk enc vals tr len T re ins
    by (intro exI [of _ New] exI [of _ C'] exI [of _ NewSLI] exI [of _ Len] exI [of _ Ascii]) simp
qed

text \<open>
  Claim C5 does not hold of the code. The right argument \<^verbatim>\<open>%69\<close> of the concatenation is
  a call of a function whose semantics attribute is neither \<^verbatim>\<open>string.makeUTF8\<close> nor
  \<^verbatim>\<open>string.makeUTF16\<close>, and the fold fires all the same: the test on the semantics and
  operand counts in \<^verbatim>\<open>extractStringConcatOperands\<close> is a disjunction over both sides, so
  one well-formed side is enough.
\<close>

theorem string_concat_one_sided_fold:
  "getOperand exOneSidedConcatCall 2 = Inr exOtherBar \<and>
   getCallee exOtherBar = Inr (exFnRef 65 (exStringFn ''make'' ''string.other'')) \<and>
   fnSemanticsAttr (getReferencedFunction (exFnRef 65 (exStringFn ''make'' ''string.other'')))
     = ''string.other'' \<and>
   (\<exists>New C' NewSLI. visitApplyInst exRules exCombiner exOneSidedConcatCall = Inr (Some New, C') \<and>
      getKind New = ''ApplyInst'' \<and> getOperand New 1 = Inr NewSLI \<and>
      getKind NewSLI = ''StringLiteralInst'' \<and> getStringValue NewSLI = ''foobar'')"
  by (simp add: visitApplyInst_def exRules_def exOneSidedConcatCall_def string_eval_defs)

text \<open>
  Claim C6 does not hold of the code. In \<^verbatim>\<open>%81 = apply %80(%79, %59)\<close> the left argument
  \<^verbatim>\<open>%79\<close> is a call, not transparent, of a function whose semantics attribute is
  \<^verbatim>\<open>string.other\<close>, and the right argument \<^verbatim>\<open>%59\<close> is a transparent call of the UTF-8
  maker. The fold fires, because one well-formed side is enough for the test in
  \<^verbatim>\<open>extractStringConcatOperands\<close>, and \<^verbatim>\<open>adjustEncodings\<close> takes the function and the
  transparency of the left call, because the two literals have the same encoding: the new
  call on \<^verbatim>\<open>"foobar"\<close> is a call of the function \<open>other\<close>, not of the maker of the
  resulting encoding, and it is not transparent.
\<close>

theorem string_concat_fold_calls_other:
  "getOperand exMirrorConcatCall 1 = Inr exOtherFoo \<and>
   getOperand exMirrorConcatCall 2 = Inr exBar \<and>
   getCallee exOtherFoo = Inr (exFnRef 75 (exStringFn ''other'' ''string.other'')) \<and>
   getCallee exBar = Inr (exFnRef 55 (exStringFn ''make'' ''string.makeUTF8'')) \<and>
   isTransparentApply exBar \<and>
   (\<exists>New C' NewSLI.
      visitApplyInst exRules exCombiner exMirrorConcatCall = Inr (Some New, C') \<and>
      getKind New = ''ApplyInst'' \<and>
      getCallee New = Inr (exFnRef 75 (exStringFn ''other'' ''string.other'')) \<and>
      fnSemanticsAttr (getReferencedFunction (exFnRef 75 (exStringFn ''other'' ''string.other'')))
        = ''string.other'' \<and>
      \<not> isTransparentApply New \<and>
      getOperand New 1 = Inr NewSLI \<and> getStringValue NewSLI = ''foobar'' \<and>
      getEncoding NewSLI = UTF8)"
  by (simp add: visitApplyInst_def exRules_def exMirrorConcatCall_def exOtherFoo_def
        mkAttrs_def string_eval_defs)

subsection \<open>The inliner\<close>

lemma inlineFunction_refuses:
  "getFunction AI = fnName (fnDecl (Original S)) \<Longrightarrow>
     inlineFunction S AI Args = Inr (False, S \<lparr> CalleeFunction := Some (fnDecl (Original S)) \<rparr>)"
  by (simp add: inlineFunction_def)

lemma inlineFunction_returns_true:
  assumes "getFunction AI \<noteq> fnName (fnDecl (Original S))"
    and "inlineFunction S AI Args = Inr (res, S')"
  shows "res"
  using assms
  by (auto simp: inlineFunction_def bindF_def Let_def split: sum.splits option.splits)



















































lemmas inline_eval_defs = inlineFunction_def cloneEntryBlock_def getParent_def visit_def
  cloneInst_def remapValue_def mapInsert_def isTermInst_def getSuccessors_def getTerminator_def
  getOrCreateInlineScope_def builderInsertInst_def insertAt_def getInlinedLocation_def
  getMandatoryInlinedLocation_def dyn_cast_def getOperand_def replaceAllUsesIn_def eraseInst_def
  replaceAllUsesWith_def mapInsts_def eraseFromParent_def bindF_def Let_def getFunction_def
  getLoc_def plainType_def noResultType_def noFunction_def mkAttrs_def exType_def exDecl_def
  exLoc_def exAttrs_def exScope_def calleeArg_def calleeStruct_def calleeDebug_def calleeRet_def
  exCallee_def exForeignCallee_def callerArg_def callerRef_def callerApply_def callerTuple_def
  callerRet_def exCaller_def exInliner_def


lemma inlineFunction_foreign_asserts:
  assumes "getFunction AI \<noteq> fnName (fnDecl (Original S))"
    and "IKind S = MandatoryInline"
    and "fnAbstractCC (fnDecl (Original S)) = CC_C \<or>
         fnAbstractCC (fnDecl (Original S)) = CC_ObjCMethod"
  shows "inlineFunction S AI Args = Inl AssertionFailure"
proof -
  have "cloneEntryBlock (S \<lparr> CalleeFunction := Some (fnDecl (Original S)) \<rparr>) AI Args
          = Inl AssertionFailure"
    using assms(2,3) by (auto simp: cloneEntryBlock_def Let_def)
  with assms(1) show ?thesis
    by (simp add: inlineFunction_def Let_def bindF_def)
qed

text \<open>
  Claim C1, as amended. \<^verbatim>\<open>inlineFunction\<close> returns false exactly when the apply lies in
  the callee itself, that is, when the callee is the caller that contains the apply. The
  state after such a refusal is the state before it, apart from the member
  \<open>CalleeFunction\<close> that the function sets first: no instruction of the caller is
  modified. A callee with the C or the Objective-C calling convention under mandatory
  inlining is not a second case of refusal: when the callee is not the caller, the call
  stops at an assertion.
\<close>

theorem inlineFunction_refusal:
  "((\<exists>S'. inlineFunction S AI Args = Inr (False, S'))
      \<longleftrightarrow> getFunction AI = fnName (fnDecl (Original S))) \<and>
   (\<forall>S'. inlineFunction S AI Args = Inr (False, S') \<longrightarrow>
      S' = S \<lparr> CalleeFunction := Some (fnDecl (Original S)) \<rparr> \<and> BuilderF S' = BuilderF S) \<and>
   (getFunction AI \<noteq> fnName (fnDecl (Original S)) \<and> IKind S = MandatoryInline \<and>
    (fnAbstractCC (fnDecl (Original S)) = CC_C \<or>
     fnAbstractCC (fnDecl (Original S)) = CC_ObjCMethod) \<longrightarrow>
      inlineFunction S AI Args = Inl AssertionFailure)"
proof (cases "getFunction AI = fnName (fnDecl (Original S))")
  case True
  then show ?thesis using inlineFunction_refuses [OF True, of Args] by auto
next
  case False
  have "\<And>S'. inlineFunction S AI Args \<noteq> Inr (False, S')"
    using inlineFunction_returns_true [OF False] by blast
  with False show ?thesis
    using inlineFunction_foreign_asserts [OF False, of Args] by simp
qed

theorem inlineFunction_refusal_witness:
  "(\<exists>S'. inlineFunction (exInliner PerformanceInline exRecursiveFn exRecursiveFn) exSelfApply
           [exLoad] = Inr (False, S') \<and>
         S' = (exInliner PerformanceInline exRecursiveFn exRecursiveFn)
                \<lparr> CalleeFunction := Some (exDecl ''f'') \<rparr> \<and>
         BuilderF S' = exRecursiveFn) \<and>
   inlineFunction (exInliner MandatoryInline exForeignCallee exCaller) callerApply [callerArg]
     = Inl AssertionFailure"
proof -
  let ?S = "exInliner PerformanceInline exRecursiveFn exRecursiveFn"
  let ?F = "exInliner MandatoryInline exForeignCallee exCaller"
  have f: "getFunction exSelfApply = fnName (fnDecl (Original ?S))"
    by (simp add: getFunction_def exSelfApply_def exAttrs_def mkAttrs_def exInliner_def
          exRecursiveFn_def exDecl_def)
  have o: "fnDecl (Original ?S) = exDecl ''f''" "BuilderF ?S = exRecursiveFn"
    by (simp_all add: exInliner_def exRecursiveFn_def)
  have g: "getFunction callerApply \<noteq> fnName (fnDecl (Original ?F))"
    "IKind ?F = MandatoryInline" "fnAbstractCC (fnDecl (Original ?F)) = CC_C"
    by (simp_all add: getFunction_def callerApply_def exAttrs_def mkAttrs_def exInliner_def
          exForeignCallee_def exCallee_def exDecl_def)
  note r = inlineFunction_refusal [of ?S exSelfApply "[exLoad]"]
  from r f obtain S' where
    s: "inlineFunction ?S exSelfApply [exLoad] = Inr (False, S')" by blast
  with r have "S' = ?S \<lparr> CalleeFunction := Some (fnDecl (Original ?S)) \<rparr> \<and>
                 BuilderF S' = BuilderF ?S" by blast
  with s o have 1: "\<exists>S'. inlineFunction ?S exSelfApply [exLoad] = Inr (False, S') \<and>
         S' = ?S \<lparr> CalleeFunction := Some (exDecl ''f'') \<rparr> \<and> BuilderF S' = exRecursiveFn"
    by simp
  have 2: "inlineFunction ?F callerApply [callerArg] = Inl AssertionFailure"
    using inlineFunction_refusal [of ?F callerApply "[callerArg]"] g by blast
  from 1 2 show ?thesis by (rule conjI)
qed

text \<open>
  The claim as stated fails at the callee with the C calling convention under mandatory
  inlining: the function asserts that it is not asked for such a callee
  (\<^verbatim>\<open>"Cannot inline Objective-C methods or C functions in mandatory inlining"\<close>), so
  the call does not return false.
\<close>

theorem inlineFunction_foreign_counterexample:
  "IKind (exInliner MandatoryInline exForeignCallee exCaller) = MandatoryInline \<and>
   fnAbstractCC (fnDecl (Original (exInliner MandatoryInline exForeignCallee exCaller))) = CC_C \<and>
   getFunction callerApply
     \<noteq> fnName (fnDecl (Original (exInliner MandatoryInline exForeignCallee exCaller))) \<and>
   inlineFunction (exInliner MandatoryInline exForeignCallee exCaller) callerApply [callerArg]
     = Inl AssertionFailure"
  by (simp add: inline_eval_defs)



end
